theory Spec2Isabelle
  imports Complex_Main
begin

section \<open>The technical-analysis dictionary\<close>

text \<open>
  The analysis that \<^verbatim>\<open>TechnicalAnalyzer.comprehensive_analysis\<close> builds is a Python
  dictionary of sub-dictionaries, and every consumer reads it with
  \<^verbatim>\<open>d.get(key, default)\<close>. A leaf is therefore an \<open>option\<close>: \<open>None\<close> is a key that
  is absent, and \<open>dict_get\<close> is \<^verbatim>\<open>.get\<close> with its default. A missing sub-dictionary
  reads as \<^verbatim>\<open>{}\<close>, which is the sub-record with every leaf \<open>None\<close>. Only the keys
  that the embedded functions read are kept, and a key that occurs in several
  dictionaries carries a prefix in all but one of them. Floats are modelled as reals
  (no NaN, no rounding), Python's unbounded integers as \<open>int\<close>.

  \<^verbatim>\<open>calculate_emas\<close> (\<^verbatim>\<open>technical_analysis.py\<close>, lines 122 to 143) wraps only
  \<^verbatim>\<open>crossover\<close> in \<^verbatim>\<open>bool()\<close>. Its \<^verbatim>\<open>golden_cross\<close> and \<^verbatim>\<open>death_cross\<close> are the results
  of \<^verbatim>\<open>and\<close> on comparisons of numpy floats, hence values of \<^verbatim>\<open>numpy.bool_\<close>, when the
  \<^verbatim>\<open>try\<close> branch returns, and Python's \<^verbatim>\<open>False\<close> when the \<^verbatim>\<open>except\<close> branch does. The
  two kinds have the same truth value everywhere; they differ for the BSON encoder of
  \<^verbatim>\<open>insert_one\<close>, which encodes a \<^verbatim>\<open>bool\<close> and raises on a \<^verbatim>\<open>numpy.bool_\<close>.
\<close>

datatype py_bool = Py_bool bool | Numpy_bool bool

fun truth_value :: "py_bool \<Rightarrow> bool" where
  "truth_value (Py_bool b) = b"
| "truth_value (Numpy_bool b) = b"

definition dict_get :: "'a option \<Rightarrow> 'a \<Rightarrow> 'a" where
  "dict_get v d = (case v of None \<Rightarrow> d | Some x \<Rightarrow> x)"

record macd_dict =
  macd_value :: "real option"
  signal :: "real option"
  histogram :: "real option"

record bollinger_dict =
  position :: "real option"

record emas_dict =
  crossover :: "bool option"
  golden_cross :: "py_bool option"
  death_cross :: "py_bool option"

record stochastic_dict =
  stoch_k :: "real option"
  stoch_d :: "real option"

record volume_dict =
  volume_strength :: "real option"
  volume_trend :: "real option"

record patterns_dict =
  hammer :: "bool option"
  doji :: "bool option"
  engulfing :: "bool option"

record sr_dict =
  resistance_distance :: "real option"
  support_distance :: "real option"

text \<open>The dictionary returned by \<^verbatim>\<open>generate_signals\<close>; all six keys are always set.\<close>

record signal_dict =
  strength :: int
  sig_confidence :: real
  bullish_signals :: "string list"
  bearish_signals :: "string list"
  total_signals :: nat
  net_bullish :: int

record analysis =
  rsi :: "real option"
  macd :: macd_dict
  bollinger :: bollinger_dict
  emas :: emas_dict
  stochastic :: stochastic_dict
  volume :: volume_dict
  patterns :: patterns_dict
  support_resistance :: sr_dict
  signals :: "signal_dict option"

text \<open>The empty dictionary \<^verbatim>\<open>{}\<close>.\<close>

definition empty_analysis :: analysis where
  "empty_analysis =
     \<lparr>rsi = None,
      macd = \<lparr>macd_value = None, signal = None, histogram = None\<rparr>,
      bollinger = \<lparr>position = None\<rparr>,
      emas = \<lparr>crossover = None, golden_cross = None, death_cross = None\<rparr>,
      stochastic = \<lparr>stoch_k = None, stoch_d = None\<rparr>,
      volume = \<lparr>volume_strength = None, volume_trend = None\<rparr>,
      patterns = \<lparr>hammer = None, doji = None, engulfing = None\<rparr>,
      support_resistance = \<lparr>resistance_distance = None, support_distance = None\<rparr>,
      signals = None\<rparr>"

section \<open>The signal scorer: \<^verbatim>\<open>TechnicalAnalyzer.generate_signals\<close>\<close>

text \<open>
  \<^verbatim>\<open>backend/technical_analysis.py\<close>, lines 256 to 339. The function keeps three local
  variables, \<^verbatim>\<open>bullish_signals\<close>, \<^verbatim>\<open>bearish_signals\<close> and \<^verbatim>\<open>signal_strength\<close>, and runs
  seven blocks over them in a fixed order. Each block is one function on the triple of
  the three variables, named after the block's comment in the source.
\<close>

type_synonym sig_acc = "string list \<times> string list \<times> int"

fun rsi_signals :: "analysis \<Rightarrow> sig_acc \<Rightarrow> sig_acc" where
  "rsi_signals a (bull, bear, s) =
     (if dict_get (rsi a) 50 < 30 then (bull @ [''RSI oversold (<30)''], bear, s + 15)
      else if dict_get (rsi a) 50 > 70 then (bull, bear @ [''RSI overbought (>70)''], s - 15)
      else (bull, bear, s))"

fun macd_signals :: "analysis \<Rightarrow> sig_acc \<Rightarrow> sig_acc" where
  "macd_signals a (bull, bear, s) =
     (if dict_get (histogram (macd a)) 0 > 0 \<and>
         dict_get (macd_value (macd a)) 0 > dict_get (signal (macd a)) 0
      then (bull @ [''MACD bullish crossover''], bear, s + 20)
      else if dict_get (histogram (macd a)) 0 < 0 \<and>
         dict_get (macd_value (macd a)) 0 < dict_get (signal (macd a)) 0
      then (bull, bear @ [''MACD bearish crossover''], s - 20)
      else (bull, bear, s))"

fun ema_signals :: "analysis \<Rightarrow> sig_acc \<Rightarrow> sig_acc" where
  "ema_signals a (bull, bear, s) =
     (if truth_value (dict_get (golden_cross (emas a)) (Py_bool False))
      then (bull @ [''EMA golden cross''], bear, s + 25)
      else if truth_value (dict_get (death_cross (emas a)) (Py_bool False))
      then (bull, bear @ [''EMA death cross''], s - 25)
      else if dict_get (crossover (emas a)) False then (bull @ [''EMA 20 above EMA 50''], bear, s + 10)
      else (bull, bear @ [''EMA 20 below EMA 50''], s - 10))"

fun bollinger_signals :: "analysis \<Rightarrow> sig_acc \<Rightarrow> sig_acc" where
  "bollinger_signals a (bull, bear, s) =
     (if dict_get (position (bollinger a)) 0.5 < 0.2
      then (bull @ [''Price near lower Bollinger Band''], bear, s + 15)
      else if dict_get (position (bollinger a)) 0.5 > 0.8
      then (bull, bear @ [''Price near upper Bollinger Band''], s - 15)
      else (bull, bear, s))"

fun volume_signals :: "analysis \<Rightarrow> sig_acc \<Rightarrow> sig_acc" where
  "volume_signals a (bull, bear, s) =
     (if dict_get (volume_strength (volume a)) 0 > 50 then
        (if s > 0 then (bull @ [''High volume confirms bullish move''], bear, s + 10)
         else (bull, bear @ [''High volume confirms bearish move''], s - 10))
      else (bull, bear, s))"

fun hammer_signals :: "analysis \<Rightarrow> sig_acc \<Rightarrow> sig_acc" where
  "hammer_signals a (bull, bear, s) =
     (if dict_get (hammer (patterns a)) False
      then (bull @ [''Hammer candlestick pattern''], bear, s + 12)
      else (bull, bear, s))"

fun engulfing_signals :: "analysis \<Rightarrow> sig_acc \<Rightarrow> sig_acc" where
  "engulfing_signals a (bull, bear, s) =
     (if dict_get (engulfing (patterns a)) False then
        (if s > 0 then (bull @ [''Bullish engulfing pattern''], bear, s + 15)
         else (bull, bear @ [''Bearish engulfing pattern''], s - 15))
      else (bull, bear, s))"

text \<open>The seven blocks in the order of the source, from empty lists and strength 0.\<close>

definition scored :: "analysis \<Rightarrow> sig_acc" where
  "scored a =
     engulfing_signals a (hammer_signals a (volume_signals a (bollinger_signals a
       (ema_signals a (macd_signals a (rsi_signals a ([], [], 0)))))))"

text \<open>
  Lines 328 to 339: the confidence is computed from the strength alone
  (\<^verbatim>\<open>min(abs(signal_strength) / 100, 0.95)\<close>, then \<^verbatim>\<open>max(confidence, 0.5)\<close>), and the
  strength is returned as summed.
\<close>

definition generate_signals :: "analysis \<Rightarrow> signal_dict" where
  "generate_signals a =
     (case scored a of (bull, bear, s) \<Rightarrow>
        \<lparr>strength = s,
         sig_confidence = max (min (\<bar>real_of_int s\<bar> / 100) 0.95) 0.5,
         bullish_signals = bull,
         bearish_signals = bear,
         total_signals = length bull + length bear,
         net_bullish = int (length bull) - int (length bear)\<rparr>)"

section \<open>Predictions and simulations\<close>

text \<open>
  A prediction is the dictionary returned by \<^verbatim>\<open>EnhancedMLSystem.advanced_prediction\<close> and
  \<^verbatim>\<open>basic_prediction\<close>. Both set the keys \<^verbatim>\<open>prediction\<close>, \<^verbatim>\<open>confidence\<close>,
  \<^verbatim>\<open>probability\<close>, \<^verbatim>\<open>reasoning\<close> and \<^verbatim>\<open>model_details\<close>; only the ensemble path adds
  \<^verbatim>\<open>timestamp\<close>, which is therefore optional. The two shapes of \<^verbatim>\<open>model_details\<close> are
  the two constructors of \<open>model_details\<close>. Directions are the Python strings
  \<^verbatim>\<open>'UP'\<close> and \<^verbatim>\<open>'DOWN'\<close>. A point in time is a number of seconds.
\<close>

record individual_prediction =
  ind_prediction :: int
  ind_probability :: real

datatype model_details =
  Ensemble_details string "(string \<times> individual_prediction) list" real nat
  | Method_details string

record probability_dict =
  up :: real
  down :: real

record prediction_dict =
  prediction :: string
  confidence :: real
  probability :: probability_dict
  reasoning :: "string list"
  model_details :: model_details
  timestamp :: "real option"

text \<open>
  A document of the collections \<^verbatim>\<open>enhanced_simulations\<close> and \<^verbatim>\<open>simulations\<close>
  (\<^verbatim>\<open>EnhancedSimulation\<close> in \<^verbatim>\<open>enhanced_server.py\<close>, lines 63 to 78). The market-data
  attachments (\<^verbatim>\<open>real_market_data\<close>, \<^verbatim>\<open>real_close_data\<close>) are left out: no embedded
  function reads them.
\<close>

record simulation =
  sim_id :: string
  sim_timestamp :: real
  entry_price :: real
  exit_price :: "real option"
  trend :: string
  sim_probability :: probability_dict
  sim_confidence :: real
  result_pct :: "real option"
  success :: "bool option"
  closed :: bool
  entry_method :: string
  technical_analysis :: "analysis option"
  ml_prediction :: "prediction_dict option"
  learning_feedback :: "bool option"

section \<open>The correction learner: \<^verbatim>\<open>ErrorLearningSystem\<close>\<close>

text \<open>
  \<^verbatim>\<open>backend/advanced_ai_system.py\<close>. The state is \<^verbatim>\<open>correction_weights\<close> (a
  \<^verbatim>\<open>defaultdict(float)\<close>), \<^verbatim>\<open>recent_errors\<close> (a \<^verbatim>\<open>deque(maxlen=200)\<close> of error
  analyses, of which only \<^verbatim>\<open>identified_errors\<close> is ever read back) and the counters of
  \<^verbatim>\<open>error_stats\<close>. The logs \<^verbatim>\<open>error_patterns\<close> and \<^verbatim>\<open>improvement_history\<close> are written
  and never read by the embedded functions; they are left out.
\<close>

record error_stats =
  total_errors_analyzed :: nat
  corrections_applied :: nat
  improvement_cycles :: nat

record error_learning =
  correction_weights :: "string \<rightharpoonup> real"
  recent_errors :: "string list list"
  error_stats :: error_stats

definition init_error_learning :: error_learning where
  "init_error_learning =
     \<lparr>correction_weights = Map.empty, recent_errors = [],
      error_stats = \<lparr>total_errors_analyzed = 0, corrections_applied = 0, improvement_cycles = 0\<rparr>\<rparr>"

text \<open>The table \<^verbatim>\<open>self.correction_factors\<close> (lines 37 to 46).\<close>

definition correction_factors :: "string \<rightharpoonup> real" where
  "correction_factors = map_of
     [(''rsi_overbought'', 0.15),
      (''rsi_oversold'', 0.15),
      (''macd_false_signal'', 0.20),
      (''volume_anomaly'', 0.10),
      (''ema_crossover_fail'', 0.25),
      (''bollinger_breakout_fail'', 0.18),
      (''pattern_recognition_fail'', 0.12),
      (''support_resistance_break'', 0.22)]"

text \<open>\<^verbatim>\<open>deque.append\<close> on a deque with \<^verbatim>\<open>maxlen = n\<close>: a full deque drops its oldest entry.\<close>

definition deque_append :: "nat \<Rightarrow> 'a list \<Rightarrow> 'a \<Rightarrow> 'a list" where
  "deque_append n xs x = drop (length (xs @ [x]) - n) (xs @ [x])"

text \<open>
  The pattern checks of \<^verbatim>\<open>analyze_failed_prediction\<close> (lines 70 to 175), in the order in
  which they append to \<^verbatim>\<open>identified_errors\<close>. The test \<^verbatim>\<open>not actual_success\<close> of the
  EMA check is always true where it is evaluated, after the early return at line 65.
\<close>

definition identified_errors :: "analysis \<Rightarrow> string \<Rightarrow> string list" where
  "identified_errors ta predicted_direction =
     (if dict_get (rsi ta) 50 > 70 \<and> predicted_direction = ''UP'' then [''rsi_overbought'']
      else if dict_get (rsi ta) 50 < 30 \<and> predicted_direction = ''DOWN'' then [''rsi_oversold'']
      else []) @
     (if \<bar>dict_get (histogram (macd ta)) 0\<bar> < 0.01 then [''macd_false_signal''] else []) @
     (if truth_value (dict_get (golden_cross (emas ta)) (Py_bool False)) \<and> predicted_direction = ''UP''
      then [''ema_crossover_fail''] else []) @
     (if (dict_get (position (bollinger ta)) 0.5 > 0.9 \<and> predicted_direction = ''UP'') \<or>
         (dict_get (position (bollinger ta)) 0.5 < 0.1 \<and> predicted_direction = ''DOWN'')
      then [''bollinger_breakout_fail''] else []) @
     (if \<bar>dict_get (volume_strength (volume ta)) 0\<bar> > 100 then [''volume_anomaly''] else []) @
     (if dict_get (resistance_distance (support_resistance ta)) 10 < 1 \<and> predicted_direction = ''UP''
      then [''support_resistance_break''] else [])"

text \<open>
  \<^verbatim>\<open>apply_corrections\<close> (lines 192 to 222): the loop over \<^verbatim>\<open>identified_errors\<close>. A
  \<^verbatim>\<open>defaultdict(float)\<close> reads a missing key as \<open>0.0\<close>. The result is the new weights
  and the local counter \<^verbatim>\<open>corrections_applied\<close>.
\<close>

fun apply_corrections_loop :: "string list \<Rightarrow> (string \<rightharpoonup> real) \<times> nat \<Rightarrow> (string \<rightharpoonup> real) \<times> nat" where
  "apply_corrections_loop [] (w, n) = (w, n)"
| "apply_corrections_loop (error_type # rest) (w, n) =
     (case correction_factors error_type of
        None \<Rightarrow> apply_corrections_loop rest (w, n)
      | Some f \<Rightarrow>
          apply_corrections_loop rest
            (w(error_type \<mapsto> min (dict_get (w error_type) 0 + f) 0.8), n + 1))"

definition apply_corrections :: "string list \<Rightarrow> error_learning \<Rightarrow> error_learning" where
  "apply_corrections errors els =
     (case apply_corrections_loop errors (correction_weights els, 0) of
        (w, n) \<Rightarrow>
          els\<lparr>correction_weights := w,
              error_stats := (error_stats els)
                \<lparr>corrections_applied := corrections_applied (error_stats els) + n\<rparr>\<rparr>)"

text \<open>
  \<^verbatim>\<open>analyze_failed_prediction\<close> (lines 51 to 190) on a simulation document. A truthy
  \<^verbatim>\<open>success\<close> returns at once. A \<^verbatim>\<open>technical_analysis\<close> of \<^verbatim>\<open>None\<close> raises at line 71,
  before any state is written, and the handler returns: the state is unchanged.
  Otherwise the analysis is appended to \<^verbatim>\<open>recent_errors\<close>, counted, and its corrections
  are applied.
\<close>

definition analyze_failed_prediction :: "simulation \<Rightarrow> error_learning \<Rightarrow> error_learning" where
  "analyze_failed_prediction simulation_data els =
     (if dict_get (success simulation_data) False then els
      else case technical_analysis simulation_data of
        None \<Rightarrow> els
      | Some ta \<Rightarrow>
          (let errors = identified_errors ta (trend simulation_data);
               els1 = els\<lparr>recent_errors := deque_append 200 (recent_errors els) errors,
                          error_stats := (error_stats els)
                            \<lparr>total_errors_analyzed := total_errors_analyzed (error_stats els) + 1\<rparr>\<rparr>
           in apply_corrections errors els1))"

text \<open>
  \<^verbatim>\<open>get_correction_factor\<close> (lines 224 to 271). The handler's \<^verbatim>\<open>return 0.0\<close> is reached
  only by an ill-typed dictionary, which the typed analysis excludes.
\<close>

definition get_correction_factor :: "error_learning \<Rightarrow> analysis \<Rightarrow> string \<Rightarrow> real" where
  "get_correction_factor els ta pred =
     (let w = (\<lambda>key. dict_get (correction_weights els key) 0);
          total_correction = 0;
          total_correction =
            (if dict_get (rsi ta) 50 > 70 \<and> pred = ''UP''
             then total_correction - w ''rsi_overbought''
             else if dict_get (rsi ta) 50 < 30 \<and> pred = ''DOWN''
             then total_correction - w ''rsi_oversold''
             else total_correction);
          total_correction =
            (if \<bar>dict_get (histogram (macd ta)) 0\<bar> < 0.01
             then total_correction - w ''macd_false_signal'' else total_correction);
          total_correction =
            (if truth_value (dict_get (golden_cross (emas ta)) (Py_bool False)) \<and> pred = ''UP''
             then total_correction - w ''ema_crossover_fail'' else total_correction);
          total_correction =
            (if (dict_get (position (bollinger ta)) 0.5 > 0.9 \<and> pred = ''UP'') \<or>
                (dict_get (position (bollinger ta)) 0.5 < 0.1 \<and> pred = ''DOWN'')
             then total_correction - w ''bollinger_breakout_fail'' else total_correction);
          total_correction =
            (if \<bar>dict_get (volume_strength (volume ta)) 0\<bar> > 100
             then total_correction - w ''volume_anomaly'' else total_correction);
          total_correction =
            (if dict_get (resistance_distance (support_resistance ta)) 10 < 1 \<and> pred = ''UP''
             then total_correction - w ''support_resistance_break'' else total_correction)
      in max total_correction (- 0.3))"

text \<open>
  \<^verbatim>\<open>optimize_for_90_percent\<close> (lines 273 to 320). \<^verbatim>\<open>recent_error_types\<close> is a
  \<^verbatim>\<open>defaultdict(int)\<close>: an association list in insertion order. \<^verbatim>\<open>sorted(..., key=count,
  reverse=True)\<close> is a stable sort by descending count, here a stable insertion sort on
  the negated count; \<^verbatim>\<open>[:5]\<close> keeps the first five.
\<close>

fun count_error :: "string \<Rightarrow> (string \<times> nat) list \<Rightarrow> (string \<times> nat) list" where
  "count_error e [] = [(e, 1)]"
| "count_error e ((k, c) # rest) =
     (if k = e then (k, c + 1) # rest else (k, c) # count_error e rest)"

definition recent_error_types :: "string list list \<Rightarrow> (string \<times> nat) list" where
  "recent_error_types errors =
     foldl (\<lambda>counts e. count_error e counts) [] (concat (drop (length errors - 50) errors))"

definition most_common_errors :: "string list list \<Rightarrow> (string \<times> nat) list" where
  "most_common_errors errors =
     take 5 (sort_key (\<lambda>(error_type, count). - int count) (recent_error_types errors))"

fun optimize_loop :: "(string \<times> nat) list \<Rightarrow> (string \<rightharpoonup> real) \<Rightarrow> (string \<rightharpoonup> real)" where
  "optimize_loop [] w = w"
| "optimize_loop ((error_type, count) # rest) w =
     (if count > 5
      then optimize_loop rest (w(error_type \<mapsto> min (dict_get (w error_type) 0 + 0.1) 0.5))
      else optimize_loop rest w)"

definition optimize_for_90_percent :: "error_learning \<Rightarrow> error_learning" where
  "optimize_for_90_percent els =
     els\<lparr>correction_weights :=
            optimize_loop (most_common_errors (recent_errors els)) (correction_weights els),
         error_stats := (error_stats els)
           \<lparr>improvement_cycles := improvement_cycles (error_stats els) + 1\<rparr>\<rparr>"

text \<open>
  The learner's life: any sequence of failure analyses and optimisation cycles, from the
  state built by \<^verbatim>\<open>__init__\<close>.
\<close>

datatype learner_call = Analyze_failed simulation | Optimize

fun learner_step :: "error_learning \<Rightarrow> learner_call \<Rightarrow> error_learning" where
  "learner_step els (Analyze_failed sim) = analyze_failed_prediction sim els"
| "learner_step els Optimize = optimize_for_90_percent els"

definition learner_run :: "learner_call list \<Rightarrow> error_learning" where
  "learner_run calls = foldl learner_step init_error_learning calls"

section \<open>The ensemble predictor: \<^verbatim>\<open>EnhancedMLSystem\<close>\<close>

text \<open>
  \<^verbatim>\<open>backend/enhanced_ml_system.py\<close>. The scikit-learn estimators are not code of the
  repository: a fitted classifier is a pair of functions on a feature vector
  (\<^verbatim>\<open>predict(...)[0]\<close> and \<^verbatim>\<open>predict_proba(...)[0]\<close>), and fitting is a parameter
  \<open>sklearn\<close> of the functions that train. \<^verbatim>\<open>self.models\<close> is \<^verbatim>\<open>{}\<close> until
  \<^verbatim>\<open>train_models\<close> stores the three fitted models at once, so it is an optional record.
  The clock is a parameter: \<^verbatim>\<open>datetime.utcnow()\<close> with the two fields the code reads.
\<close>

record datetime =
  dt_seconds :: real
  dt_hour :: nat
  dt_weekday :: nat

record classifier =
  predict :: "real list \<Rightarrow> int"
  predict_proba :: "real list \<Rightarrow> real list"

record trained_models =
  random_forest :: classifier
  gradient_boost :: classifier
  ensemble :: classifier

record sklearn =
  fit_scaler :: "(real list \<times> nat) list \<Rightarrow> (real list \<Rightarrow> real list) option"
  fit_models :: "(real list \<times> nat) list \<Rightarrow> trained_models option"

record history_entry =
  hist_prediction :: prediction_dict
  hist_technical_analysis :: "analysis option"
  hist_timestamp :: real

record learning_entry =
  lq_features :: "real list"
  lq_label :: nat
  lq_timestamp :: real

record prediction_stats =
  total_predictions :: nat
  correct_predictions :: nat
  labeled_predictions :: nat
  recent_accuracy :: real
  model_updates :: nat

record ml_system =
  models :: "trained_models option"
  scalers :: "(real list \<Rightarrow> real list) option"
  is_trained :: bool
  feature_names :: "string list"
  prediction_history :: "history_entry list"
  learning_queue :: "learning_entry list"
  prediction_stats :: prediction_stats

text \<open>The state built by \<^verbatim>\<open>__init__\<close> (lines 27 to 66).\<close>

definition init_ml_system :: ml_system where
  "init_ml_system =
     \<lparr>models = None, scalers = None, is_trained = False, feature_names = [],
      prediction_history = [], learning_queue = [],
      prediction_stats = \<lparr>total_predictions = 0, correct_predictions = 0,
        labeled_predictions = 0, recent_accuracy = 0, model_updates = 0\<rparr>\<rparr>"

text \<open>
  \<^verbatim>\<open>extract_features\<close> (lines 68 to 151). The body appends twenty-two values, pads
  with \<open>0.0\<close> while there are fewer than twenty, and truncates to twenty. An analysis of
  \<^verbatim>\<open>None\<close> raises at line 74 and the handler returns twenty zeros.
\<close>

definition extract_features :: "datetime \<Rightarrow> analysis option \<Rightarrow> real list" where
  "extract_features now tech =
     (case tech of
        None \<Rightarrow> replicate 20 0
      | Some ta \<Rightarrow>
          (let features =
                 [dict_get (rsi ta) 50 / 100] @
                 [dict_get (macd_value (macd ta)) 0 / 1000,
                  dict_get (signal (macd ta)) 0 / 1000,
                  dict_get (histogram (macd ta)) 0 / 1000] @
                 [dict_get (position (bollinger ta)) 0.5] @
                 [if dict_get (crossover (emas ta)) False then 1 else 0,
                  if truth_value (dict_get (golden_cross (emas ta)) (Py_bool False)) then 1 else 0,
                  if truth_value (dict_get (death_cross (emas ta)) (Py_bool False)) then 1 else 0] @
                 [dict_get (stoch_k (stochastic ta)) 50 / 100,
                  dict_get (stoch_d (stochastic ta)) 50 / 100] @
                 [tanh (dict_get (volume_strength (volume ta)) 0 / 100),
                  tanh (dict_get (volume_trend (volume ta)) 0 / 100)] @
                 [if dict_get (hammer (patterns ta)) False then 1 else 0,
                  if dict_get (doji (patterns ta)) False then 1 else 0,
                  if dict_get (engulfing (patterns ta)) False then 1 else 0] @
                 [tanh (dict_get (resistance_distance (support_resistance ta)) 2 / 10),
                  tanh (dict_get (support_distance (support_resistance ta)) 2 / 10)] @
                 (case signals ta of
                    None \<Rightarrow> [tanh (0 / 100), 0, 0]
                  | Some sg \<Rightarrow>
                      [tanh (real_of_int (strength sg) / 100),
                       real (length (bullish_signals sg)),
                       real (length (bearish_signals sg))]) @
                 [real (dt_hour now) / 24, real (dt_weekday now) / 7];
               features = features @ replicate (20 - length features) 0
           in take 20 features))"

text \<open>Decimal text of an integer, for the f-strings of the reasoning lists.\<close>

fun show_nat :: "nat \<Rightarrow> string" where
  "show_nat n =
     (if n < 10 then [char_of (48 + n)]
      else show_nat (n div 10) @ [char_of (48 + n mod 10)])"

definition show_int :: "int \<Rightarrow> string" where
  "show_int i = (if i < 0 then ''-'' @ show_nat (nat (- i)) else show_nat (nat i))"

text \<open>
  \<^verbatim>\<open>basic_prediction\<close> (lines 364 to 406). With an analysis of \<^verbatim>\<open>None\<close> line 367
  raises and the handler returns the random fallback; \<open>random_choice\<close> is the value of
  \<^verbatim>\<open>random.choice(['UP', 'DOWN'])\<close>. The local variables that share a name with a key
  are primed. The Spanish texts are written without accents.
\<close>

definition basic_prediction :: "string \<Rightarrow> analysis option \<Rightarrow> prediction_dict" where
  "basic_prediction random_choice tech =
     (case tech of
        None \<Rightarrow>
          \<lparr>prediction = random_choice, confidence = 0.5,
           probability = \<lparr>up = 0.5, down = 0.5\<rparr>,
           reasoning = [''Prediccion aleatoria por error''],
           model_details = Method_details ''Random Fallback'',
           timestamp = None\<rparr>
      | Some ta \<Rightarrow>
          (let strength' = (case signals ta of None \<Rightarrow> 0 | Some sg \<Rightarrow> strength sg);
               prediction' = (if strength' > 0 then ''UP'' else ''DOWN'');
               confidence' = min (\<bar>real_of_int strength'\<bar> / 100) 0.8;
               confidence' = max confidence' 0.5;
               prob_up = (if prediction' = ''UP'' then 0.5 + confidence' * 0.5
                          else 1 - (0.5 + confidence' * 0.5));
               prob_down = (if prediction' = ''UP'' then 1 - prob_up
                            else 0.5 + confidence' * 0.5)
           in \<lparr>prediction = prediction', confidence = confidence',
               probability = \<lparr>up = prob_up, down = prob_down\<rparr>,
               reasoning = [''Analisis tecnico basico'', ''Fuerza de senal: '' @ show_int strength'],
               model_details = Method_details ''Technical Analysis Fallback'',
               timestamp = None\<rparr>))"

text \<open>\<^verbatim>\<open>generate_ml_reasoning\<close> (lines 408 to 446).\<close>

definition generate_ml_reasoning :: "analysis \<Rightarrow> int \<Rightarrow> int \<Rightarrow> string list" where
  "generate_ml_reasoning ta rf_pred gb_pred =
     take 5
       ((if rf_pred = gb_pred then [''Consenso fuerte entre modelos: '' @ show_int rf_pred]
         else [''Modelos divididos - usando ensemble'']) @
        (if dict_get (rsi ta) 50 < 30 then [''RSI indica sobreventa - posible rebote'']
         else if dict_get (rsi ta) 50 > 70 then [''RSI indica sobrecompra - posible correccion'']
         else []) @
        (if dict_get (histogram (macd ta)) 0 > 0
         then [''MACD histogram positivo - momentum alcista'']
         else [''MACD histogram negativo - momentum bajista'']) @
        (if truth_value (dict_get (golden_cross (emas ta)) (Py_bool False))
         then [''Golden cross detectado - senal alcista fuerte'']
         else if truth_value (dict_get (death_cross (emas ta)) (Py_bool False))
         then [''Death cross detectado - senal bajista fuerte'']
         else []) @
        (if dict_get (volume_strength (volume ta)) 0 > 20
         then [''Alto volumen - confirma direccion del movimiento'']
         else []))"

text \<open>\<^verbatim>\<open>ndarray.max()\<close>; the caller checks that the array is not empty.\<close>

definition array_max :: "real list \<Rightarrow> real" where
  "array_max xs = fold max (tl xs) (hd xs)"

text \<open>
  What scikit-learn promises of the rows of \<^verbatim>\<open>predict_proba\<close>: a row holds one
  probability for each class seen in training, one or two here, and they sum to 1.
  \<^verbatim>\<open>VotingClassifier(..., voting='soft')\<close> over the two fitted models returns the mean
  of their two rows, and a model predicts class 1 exactly when its row gives class 1
  the greater probability.
\<close>

definition probability_row :: "real list \<Rightarrow> bool" where
  "probability_row r =
     ((length r = 1 \<or> length r = 2) \<and> list_all (\<lambda>p. 0 \<le> p) r \<and> sum_list r = 1)"

definition soft_voting :: "trained_models \<Rightarrow> real list \<Rightarrow> bool" where
  "soft_voting m x =
     (let rf_proba = predict_proba (random_forest m) x;
          gb_proba = predict_proba (gradient_boost m) x
      in length rf_proba = 2 \<and> probability_row rf_proba \<and>
         length gb_proba = 2 \<and> probability_row gb_proba \<and>
         predict_proba (ensemble m) x =
           [(rf_proba ! 0 + gb_proba ! 0) / 2, (rf_proba ! 1 + gb_proba ! 1) / 2] \<and>
         predict (random_forest m) x = (if rf_proba ! 1 > rf_proba ! 0 then 1 else 0) \<and>
         predict (gradient_boost m) x = (if gb_proba ! 1 > gb_proba ! 0 then 1 else 0))"

text \<open>
  \<^verbatim>\<open>advanced_prediction\<close> (lines 280 to 362). Untrained, or with no models, it returns
  \<^verbatim>\<open>basic_prediction\<close> and writes nothing. The ensemble path raises when a
  \<^verbatim>\<open>predict_proba\<close> row is empty (\<^verbatim>\<open>max\<close> of an empty array) or when the analysis is
  \<^verbatim>\<open>None\<close> (in \<^verbatim>\<open>generate_ml_reasoning\<close>); every raise happens before the first write to
  the state, and the handler at line 360 returns \<^verbatim>\<open>basic_prediction\<close>.
\<close>

definition advanced_prediction ::
  "string \<Rightarrow> datetime \<Rightarrow> analysis option \<Rightarrow> ml_system \<Rightarrow> prediction_dict \<times> ml_system" where
  "advanced_prediction random_choice now tech ml =
     (if \<not> is_trained ml \<or> models ml = None
      then (basic_prediction random_choice tech, ml)
      else case (models ml, tech) of
        (Some m, Some ta) \<Rightarrow>
          (let features = extract_features now tech;
               features_scaled = (case scalers ml of Some transform \<Rightarrow> transform features
                                  | None \<Rightarrow> features);
               ensemble_pred = predict (ensemble m) features_scaled;
               ensemble_proba = predict_proba (ensemble m) features_scaled;
               rf_proba = predict_proba (random_forest m) features_scaled;
               gb_proba = predict_proba (gradient_boost m) features_scaled
           in if rf_proba = [] \<or> gb_proba = [] \<or> ensemble_proba = []
              then (basic_prediction random_choice tech, ml)
              else
                (let rf_pred = predict (random_forest m) features_scaled;
                     gb_pred = predict (gradient_boost m) features_scaled;
                     individual_predictions =
                       [(''random_forest'',
                         \<lparr>ind_prediction = rf_pred, ind_probability = array_max rf_proba\<rparr>),
                        (''gradient_boost'',
                         \<lparr>ind_prediction = gb_pred, ind_probability = array_max gb_proba\<rparr>)];
                     consensus = (real_of_int rf_pred + real_of_int gb_pred) / 2;
                     confidence' = array_max ensemble_proba;
                     confidence' = (if \<bar>consensus - 0.5\<bar> > 0.2 then min (confidence' * 1.1) 0.95
                                    else confidence');
                     prediction' = (if ensemble_pred = 1 then ''UP'' else ''DOWN'');
                     prob_up = (if length ensemble_proba > 1 then ensemble_proba ! 1
                                else 1 - ensemble_proba ! 0);
                     prob_down = 1 - prob_up;
                     result =
                       \<lparr>prediction = prediction', confidence = confidence',
                        probability = \<lparr>up = prob_up, down = prob_down\<rparr>,
                        reasoning = generate_ml_reasoning ta rf_pred gb_pred,
                        model_details =
                          Ensemble_details ''Voting Classifier'' individual_predictions consensus
                            (length (feature_names ml)),
                        timestamp = Some (dt_seconds now)\<rparr>
                 in (result,
                     ml\<lparr>prediction_stats := (prediction_stats ml)
                           \<lparr>total_predictions := total_predictions (prediction_stats ml) + 1\<rparr>,
                        prediction_history :=
                          deque_append 1000 (prediction_history ml)
                            \<lparr>hist_prediction = result,
                             hist_technical_analysis = tech,
                             hist_timestamp = dt_seconds now\<rparr>\<rparr>)))
      | _ \<Rightarrow> (basic_prediction random_choice tech, ml))"

text \<open>
  \<^verbatim>\<open>collect_training_data\<close> (lines 153 to 197) over the collection
  \<^verbatim>\<open>enhanced_simulations\<close>: closed documents with an analysis, at most 500 of them;
  fewer than ten is \<^verbatim>\<open>(None, None)\<close>.
\<close>

definition collect_training_data ::
  "datetime \<Rightarrow> simulation list \<Rightarrow> (real list \<times> nat) list option" where
  "collect_training_data now enhanced =
     (let sims =
            take 500 (filter (\<lambda>sim. closed sim \<and> technical_analysis sim \<noteq> None) enhanced)
      in if length sims < 10 then None
         else
           (let data = map (\<lambda>sim. (extract_features now (technical_analysis sim),
                                   if dict_get (success sim) False then 1 else 0)) sims
            in if length data < 10 then None else Some data))"

text \<open>
  \<^verbatim>\<open>train_models\<close> (lines 199 to 278). The scaler is stored at line 212, before the
  models are fitted; the models, the feature names and the flag are stored together at
  the end. Any raise returns \<^verbatim>\<open>False\<close>. The accuracy log \<^verbatim>\<open>model_accuracy\<close> is left out,
  and so is the refitting in place of the estimator objects, which earlier trained
  models share with \<^verbatim>\<open>model_configs\<close>: it can only matter after a training has succeeded.
\<close>

definition trained_feature_names :: "string list" where
  "trained_feature_names =
     [''RSI'', ''MACD'', ''MACD Signal'', ''MACD Histogram'', ''BB Position'',
      ''EMA Crossover'', ''EMA Golden Cross'', ''EMA Death Cross'',
      ''Stoch K'', ''Stoch D'', ''Volume Strength'', ''Volume Trend'',
      ''Hammer Pattern'', ''Doji Pattern'', ''Engulfing Pattern'',
      ''Resistance Distance'', ''Support Distance'', ''Signal Strength'',
      ''Bullish Signals'', ''Bearish Signals'']"

definition train_models :: "sklearn \<Rightarrow> (real list \<times> nat) list \<Rightarrow> ml_system \<Rightarrow> bool \<times> ml_system" where
  "train_models sk data ml =
     (case fit_scaler sk data of
        None \<Rightarrow> (False, ml)
      | Some scaler \<Rightarrow>
          (case fit_models sk data of
             None \<Rightarrow> (False, ml\<lparr>scalers := Some scaler\<rparr>)
           | Some trained \<Rightarrow>
               (True,
                ml\<lparr>scalers := Some scaler, models := Some trained,
                   feature_names := trained_feature_names, is_trained := True,
                   prediction_stats := (prediction_stats ml)
                     \<lparr>model_updates := model_updates (prediction_stats ml) + 1\<rparr>\<rparr>)))"

text \<open>\<^verbatim>\<open>incremental_retrain\<close> (lines 493 to 509).\<close>

definition incremental_retrain :: "sklearn \<Rightarrow> datetime \<Rightarrow> simulation list \<Rightarrow> ml_system \<Rightarrow> ml_system" where
  "incremental_retrain sk now enhanced ml =
     (case collect_training_data now enhanced of
        None \<Rightarrow> ml
      | Some data \<Rightarrow>
          if length data > 50 then
            (case train_models sk data ml of
               (True, ml1) \<Rightarrow> ml1\<lparr>learning_queue := []\<rparr>
             | (False, ml1) \<Rightarrow> ml1)
          else ml)"

text \<open>
  \<^verbatim>\<open>learn_from_result\<close> (lines 448 to 491). The loop over
  \<^verbatim>\<open>reversed(self.prediction_history)\<close> takes its first entry and breaks: the last entry
  of the history, whatever \<^verbatim>\<open>simulation_id\<close> is.
\<close>

definition learn_from_result ::
  "sklearn \<Rightarrow> datetime \<Rightarrow> simulation list \<Rightarrow> string \<Rightarrow> bool \<Rightarrow> ml_system \<Rightarrow> ml_system" where
  "learn_from_result sk now enhanced simulation_id actual_result ml =
     (case rev (prediction_history ml) of
        [] \<Rightarrow> ml
      | matching_prediction # _ \<Rightarrow>
          (let stats = prediction_stats ml;
               stats = stats\<lparr>labeled_predictions := labeled_predictions stats + 1\<rparr>;
               predicted_direction = prediction (hist_prediction matching_prediction);
               was_correct = ((predicted_direction = ''UP'' \<and> actual_result) \<or>
                              (predicted_direction = ''DOWN'' \<and> \<not> actual_result));
               stats = (if was_correct
                        then stats\<lparr>correct_predictions := correct_predictions stats + 1\<rparr>
                        else stats);
               stats = (if labeled_predictions stats > 0
                        then stats\<lparr>recent_accuracy :=
                               real (correct_predictions stats) / real (labeled_predictions stats)\<rparr>
                        else stats);
               ml1 = ml\<lparr>prediction_stats := stats,
                        learning_queue :=
                          deque_append 500 (learning_queue ml)
                            \<lparr>lq_features = extract_features now
                                          (hist_technical_analysis matching_prediction),
                             lq_label = (if actual_result then 1 else 0),
                             lq_timestamp = dt_seconds now\<rparr>\<rparr>
           in if length (learning_queue ml1) \<ge> 50
              then incremental_retrain sk now enhanced ml1
              else ml1))"

section \<open>The older predictor's confidence: \<^verbatim>\<open>MLTradingSystem\<close>\<close>

text \<open>
  \<^verbatim>\<open>backend/ai_learning_system.py\<close>: \<^verbatim>\<open>analyze_market_conditions\<close> (lines 126 to 167)
  and \<^verbatim>\<open>calculate_adjusted_confidence\<close> (lines 348 to 372), on the two combined
  probabilities of the ensemble.
\<close>

record market_conditions =
  volatility :: string
  mc_trend :: string
  momentum :: string
  volume_profile :: string

definition analyze_market_conditions :: "analysis \<Rightarrow> market_conditions" where
  "analyze_market_conditions ta =
     \<lparr>volatility =
        (if dict_get (position (bollinger ta)) 0.5 > 0.8 \<or> dict_get (position (bollinger ta)) 0.5 < 0.2
         then ''high'' else ''normal''),
      mc_trend = (if dict_get (crossover (emas ta)) False then ''bullish'' else ''bearish''),
      momentum =
        (if dict_get (rsi ta) 50 > 60 then ''bullish''
         else if dict_get (rsi ta) 50 < 40 then ''bearish'' else ''neutral''),
      volume_profile =
        (if \<bar>dict_get (volume_strength (volume ta)) 0\<bar> > 1 then ''high''
         else if \<bar>dict_get (volume_strength (volume ta)) 0\<bar> < 0.5 then ''low'' else ''normal'')\<rparr>"

definition calculate_adjusted_confidence :: "real \<Rightarrow> real \<Rightarrow> analysis \<Rightarrow> real" where
  "calculate_adjusted_confidence up_probability down_probability ta =
     (let base_confidence = max up_probability down_probability;
          technical_confidence = (case signals ta of None \<Rightarrow> 0.5 | Some sg \<Rightarrow> sig_confidence sg);
          conditions = analyze_market_conditions ta;
          market_adjustment = 0;
          market_adjustment = (if volatility conditions = ''high''
                               then market_adjustment - 0.1 else market_adjustment);
          market_adjustment = (if mc_trend conditions = momentum conditions
                               then market_adjustment + 0.05 else market_adjustment);
          combined_confidence =
            (base_confidence * 0.6 + technical_confidence * 0.4) + market_adjustment
      in max 0.5 (min 0.95 combined_confidence))"

section \<open>The simulation lifecycle: \<^verbatim>\<open>enhanced_server.py\<close>\<close>

text \<open>
  The server's state is the two MongoDB collections, each a list of documents in
  insertion order, and the two module globals \<^verbatim>\<open>enhanced_ml_system\<close> and
  \<^verbatim>\<open>error_learning_system\<close>, which are \<^verbatim>\<open>None\<close> until the startup handler has built
  them. Everything a call reads from outside is a field of \<open>environment\<close>: the clock,
  the bars that \<^verbatim>\<open>get_market_data\<close> returns, the price that
  \<^verbatim>\<open>get_current_btc_price_real\<close> returns (\<open>None\<close> when both sources fail), the fresh
  \<^verbatim>\<open>uuid4\<close>, the values of \<^verbatim>\<open>random.random()\<close> and \<^verbatim>\<open>random.choice\<close>, the indicators
  computed by the libraries \<^verbatim>\<open>ta\<close> and \<^verbatim>\<open>pandas\<close>, and scikit-learn's fitting.
\<close>

record ohlcv =
  bar_open :: real
  bar_high :: real
  bar_low :: real
  bar_close :: real
  bar_volume :: real

record environment =
  env_now :: datetime
  env_market_df :: "ohlcv list option"
  env_price :: "real option"
  env_uuid :: string
  env_random :: real
  env_random_choice :: string
  env_indicators :: "ohlcv list \<Rightarrow> analysis"
  env_sklearn :: sklearn

record engine =
  enhanced_simulations :: "simulation list"
  simulations :: "simulation list"
  enhanced_ml_system :: "ml_system option"
  error_learning_system :: "error_learning option"

text \<open>
  \<^verbatim>\<open>TechnicalAnalyzer.calculate_support_resistance\<close> (\<^verbatim>\<open>technical_analysis.py\<close>,
  lines 214 to 254), the one indicator function that calls neither \<^verbatim>\<open>ta\<close> nor a rolling
  window. The data frame is the list of its rows; \<^verbatim>\<open>df.tail(50)\<close> is its last fifty
  rows. \<^verbatim>\<open>resistances\<close> and \<^verbatim>\<open>supports\<close> are the strict local maxima of the highs and
  the strict local minima of the lows, over two neighbours on each side, and
  \<^verbatim>\<open>min(..., default=d)\<close> is \<open>d\<close> on an empty list. An empty data frame raises at line
  219 and the handler returns the distances 2.0. The keys \<^verbatim>\<open>resistance\<close> and
  \<^verbatim>\<open>support\<close> are not read by any embedded function and are left out. For a close of 0
  the numpy floats divide to \<^verbatim>\<open>inf\<close> or \<^verbatim>\<open>nan\<close> where the reals give 0: the model is
  that of the code for positive prices.
\<close>

definition resistances :: "real list \<Rightarrow> real list" where
  "resistances highs =
     map (\<lambda>i. highs ! i)
       (filter (\<lambda>i. highs ! i > highs ! (i - 1) \<and> highs ! i > highs ! (i - 2) \<and>
                    highs ! i > highs ! (i + 1) \<and> highs ! i > highs ! (i + 2))
          [2..<length highs - 2])"

definition supports :: "real list \<Rightarrow> real list" where
  "supports lows =
     map (\<lambda>i. lows ! i)
       (filter (\<lambda>i. lows ! i < lows ! (i - 1) \<and> lows ! i < lows ! (i - 2) \<and>
                    lows ! i < lows ! (i + 1) \<and> lows ! i < lows ! (i + 2))
          [2..<length lows - 2])"

definition min_default :: "real list \<Rightarrow> real \<Rightarrow> real" where
  "min_default xs d = (case xs of [] \<Rightarrow> d | x # rest \<Rightarrow> fold min rest x)"

definition max_default :: "real list \<Rightarrow> real \<Rightarrow> real" where
  "max_default xs d = (case xs of [] \<Rightarrow> d | x # rest \<Rightarrow> fold max rest x)"

definition calculate_support_resistance :: "ohlcv list \<Rightarrow> sr_dict" where
  "calculate_support_resistance df =
     (if df = [] then \<lparr>resistance_distance = Some 2, support_distance = Some 2\<rparr>
      else
        (let recent_data = drop (length df - 50) df;
             current_price = bar_close (last df);
             resistance = min_default
               (filter (\<lambda>r. r > current_price) (resistances (map bar_high recent_data)))
               (current_price * 1.05);
             support = max_default
               (filter (\<lambda>s. s < current_price) (supports (map bar_low recent_data)))
               (current_price * 0.95)
         in \<lparr>resistance_distance = Some ((resistance / current_price - 1) * 100),
             support_distance = Some ((current_price / support - 1) * 100)\<rparr>))"

text \<open>
  \<^verbatim>\<open>TechnicalAnalyzer.comprehensive_analysis\<close> (\<^verbatim>\<open>technical_analysis.py\<close>, lines 341 to
  383). Fewer than fifty bars, or no data frame, is \<^verbatim>\<open>None\<close>. The eight indicator
  functions catch their own exceptions and return defaults, so past the guard the
  analysis is always built; the signals are computed from it and stored in it. The
  parameter \<open>indicators\<close> gives the results of the seven indicator functions that rest on
  \<^verbatim>\<open>ta\<close> and on rolling windows (its fields \<open>support_resistance\<close> and \<open>signals\<close> are
  overwritten); the support and resistance levels are those of the function above.
\<close>

definition comprehensive_analysis :: "(ohlcv list \<Rightarrow> analysis) \<Rightarrow> ohlcv list option \<Rightarrow> analysis option" where
  "comprehensive_analysis indicators df =
     (case df of
        None \<Rightarrow> None
      | Some bars \<Rightarrow>
          if length bars < 50 then None
          else
            (let analysis' = (indicators bars)\<lparr>support_resistance := calculate_support_resistance bars\<rparr>
             in Some (analysis'\<lparr>signals := Some (generate_signals analysis')\<rparr>)))"

text \<open>
  \<^verbatim>\<open>generate_real_simulation\<close> (lines 469 to 564), in two parts.

  Lines 488 to 554 build the dictionary \<^verbatim>\<open>simulation\<close> from the analysis. The
  prediction of a present ML system is a non-empty dictionary, hence truthy; without an
  ML system the technical fallback of lines 506 to 514 is used. Lines 523 to 527 apply
  the correction factor with the floor \<^verbatim>\<open>max(0.1, ...)\<close>. The result is the dictionary,
  if a price is available, and the state at that point (the ML system's history is
  written even when no price is available).
\<close>

definition simulation_dict :: "environment \<Rightarrow> engine \<Rightarrow> analysis \<Rightarrow> simulation option \<times> engine" where
  "simulation_dict env eng ta =
     (let (ml_pred, ml1) =
            (case enhanced_ml_system eng of
               None \<Rightarrow> (None, None)
             | Some ml \<Rightarrow>
                 (case advanced_prediction (env_random_choice env) (env_now env) (Some ta) ml of
                    (p, ml') \<Rightarrow> (Some p, Some ml')));
          eng1 = eng\<lparr>enhanced_ml_system := ml1\<rparr>;
          sg = dict_get (signals ta)
                 \<lparr>strength = 0, sig_confidence = 0.5, bullish_signals = [],
                  bearish_signals = [], total_signals = 0, net_bullish = 0\<rparr>;
          (trend', confidence', probability', entry_method') =
            (case ml_pred of
               Some p \<Rightarrow> (prediction p, confidence p, probability p, ''ML_REAL_BINANCE_DATA'')
             | None \<Rightarrow>
                 (if strength sg > 0 then ''UP'' else ''DOWN'',
                  sig_confidence sg,
                  \<lparr>up = (real_of_int (strength sg) + 100) / 200,
                   down = (100 - real_of_int (strength sg)) / 200\<rparr>,
                  ''TECHNICAL_REAL_BINANCE_DATA''))
      in case env_price env of
           None \<Rightarrow> (None, eng1)
         | Some current_price \<Rightarrow>
             (let confidence' =
                    (case error_learning_system eng1 of
                       None \<Rightarrow> confidence'
                     | Some els \<Rightarrow> max 0.1 (confidence' + get_correction_factor els ta trend'));
                  sim =
                    \<lparr>sim_id = env_uuid env,
                     sim_timestamp = dt_seconds (env_now env),
                     entry_price = current_price,
                     exit_price = None,
                     trend = trend',
                     sim_probability = probability',
                     sim_confidence = confidence',
                     result_pct = None,
                     success = None,
                     closed = False,
                     entry_method = entry_method',
                     technical_analysis = Some ta,
                     ml_prediction = ml_pred,
                     learning_feedback = None\<rparr>
              in (Some sim, eng1)))"

text \<open>
  Line 557 inserts the dictionary. \<^verbatim>\<open>insert_one\<close> encodes it to BSON first and raises
  \<^verbatim>\<open>InvalidDocument\<close> on a numpy scalar that is not a Python \<^verbatim>\<open>float\<close>: on a
  \<^verbatim>\<open>numpy.bool_\<close> under \<^verbatim>\<open>golden_cross\<close> or \<^verbatim>\<open>death_cross\<close>, and on the \<^verbatim>\<open>numpy.int64\<close>
  that \<^verbatim>\<open>predict(...)[0]\<close> returns, which every ensemble prediction holds in its
  \<^verbatim>\<open>individual_models\<close> (\<^verbatim>\<open>enhanced_ml_system.py\<close>, lines 305 to 310). Every other
  value of the dictionary, the market-data attachment included, is a string, a
  \<^verbatim>\<open>bool\<close>, an \<^verbatim>\<open>int\<close>, a \<^verbatim>\<open>datetime\<close>, \<^verbatim>\<open>None\<close> or a float (\<^verbatim>\<open>numpy.float64\<close> is a
  subclass of \<^verbatim>\<open>float\<close>).
\<close>

definition bson_encodable :: "simulation \<Rightarrow> bool" where
  "bson_encodable sim =
     ((case technical_analysis sim of
         None \<Rightarrow> True
       | Some ta \<Rightarrow>
           (case golden_cross (emas ta) of Some (Numpy_bool b) \<Rightarrow> False | _ \<Rightarrow> True) \<and>
           (case death_cross (emas ta) of Some (Numpy_bool b) \<Rightarrow> False | _ \<Rightarrow> True)) \<and>
      (case ml_prediction sim of
         None \<Rightarrow> True
       | Some p \<Rightarrow>
           (case model_details p of
              Ensemble_details ensemble_method individual_models consensus_score feature_count \<Rightarrow> False
            | Method_details method \<Rightarrow> True)))"

text \<open>
  The whole function. No data frame or no analysis returns \<^verbatim>\<open>None\<close> at once. When
  \<^verbatim>\<open>insert_one\<close> raises, the handler of line 562 returns \<^verbatim>\<open>None\<close> and nothing is stored.
  The result is the document inserted, if any, and the new state.
\<close>

definition generate_real_simulation :: "environment \<Rightarrow> engine \<Rightarrow> simulation option \<times> engine" where
  "generate_real_simulation env eng =
     (case comprehensive_analysis (env_indicators env) (env_market_df env) of
        None \<Rightarrow> (None, eng)
      | Some ta \<Rightarrow>
          (case simulation_dict env eng ta of
             (None, eng1) \<Rightarrow> (None, eng1)
           | (Some sim, eng1) \<Rightarrow>
               if bson_encodable sim
               then (Some sim, eng1\<lparr>enhanced_simulations := enhanced_simulations eng1 @ [sim]\<rparr>)
               else (None, eng1)))"

text \<open>
  The value of the local variable \<^verbatim>\<open>confidence\<close> of \<^verbatim>\<open>generate_real_simulation\<close> when
  line 523 is reached (lines 497 to 515): the prediction's confidence with an ML
  system, the signals' confidence without one.
\<close>

definition base_confidence_of :: "environment \<Rightarrow> engine \<Rightarrow> analysis \<Rightarrow> real" where
  "base_confidence_of env eng ta =
     (case enhanced_ml_system eng of
        None \<Rightarrow> sig_confidence (dict_get (signals ta)
                  \<lparr>strength = 0, sig_confidence = 0.5, bullish_signals = [],
                   bearish_signals = [], total_signals = 0, net_bullish = 0\<rparr>)
      | Some ml \<Rightarrow> confidence (fst (advanced_prediction (env_random_choice env) (env_now env) (Some ta) ml)))"

text \<open>
  The fields that a \<^verbatim>\<open>$set\<close> of the lifecycle can write; \<open>None\<close> is a key absent from
  \<^verbatim>\<open>update_data\<close>. \<^verbatim>\<open>update_one({"id": i}, {"$set": u})\<close> rewrites the first document
  whose id is \<open>i\<close>, whatever its \<^verbatim>\<open>closed\<close> flag; \<^verbatim>\<open>matched_count\<close> is 1 when there is one.
\<close>

record update_data =
  upd_exit_price :: "real option"
  upd_result_pct :: "real option"
  upd_success :: "bool option"
  upd_closed :: "bool option"
  upd_learning_feedback :: "bool option"

definition apply_set :: "update_data \<Rightarrow> simulation \<Rightarrow> simulation" where
  "apply_set u d =
     d\<lparr>exit_price := (case upd_exit_price u of None \<Rightarrow> exit_price d | Some v \<Rightarrow> Some v),
       result_pct := (case upd_result_pct u of None \<Rightarrow> result_pct d | Some v \<Rightarrow> Some v),
       success := (case upd_success u of None \<Rightarrow> success d | Some v \<Rightarrow> Some v),
       closed := (case upd_closed u of None \<Rightarrow> closed d | Some v \<Rightarrow> v),
       learning_feedback :=
         (case upd_learning_feedback u of None \<Rightarrow> learning_feedback d | Some v \<Rightarrow> Some v)\<rparr>"

fun update_one :: "string \<Rightarrow> update_data \<Rightarrow> simulation list \<Rightarrow> simulation list" where
  "update_one i u [] = []"
| "update_one i u (d # ds) = (if sim_id d = i then apply_set u d # ds else d # update_one i u ds)"

definition matched_count :: "string \<Rightarrow> simulation list \<Rightarrow> nat" where
  "matched_count i ds = (if i \<in> set (map sim_id ds) then 1 else 0)"

text \<open>\<^verbatim>\<open>"REAL" in entry_method\<close>: the substring test on strings.\<close>

fun contains :: "string \<Rightarrow> string \<Rightarrow> bool" where
  "contains sub [] = (sub = [])"
| "contains sub (c # cs) = (take (length sub) (c # cs) = sub \<or> contains sub cs)"

text \<open>
  \<^verbatim>\<open>max(eligible_sims, key=lambda x: x['timestamp'])\<close>: the first document with the
  greatest timestamp.
\<close>

fun max_timestamp :: "simulation \<Rightarrow> simulation list \<Rightarrow> simulation" where
  "max_timestamp best [] = best"
| "max_timestamp best (x # xs) =
     max_timestamp (if sim_timestamp x > sim_timestamp best then x else best) xs"

text \<open>\<^verbatim>\<open>round(x, 2)\<close> on reals: to the nearest hundredth, a tie to the even one.\<close>

definition round2 :: "real \<Rightarrow> real" where
  "round2 x =
     (let y = x * 100; f = \<lfloor>y\<rfloor>
      in (if y - of_int f < 1 / 2 then of_int f
          else if y - of_int f > 1 / 2 then of_int (f + 1)
          else if even f then of_int f else of_int (f + 1)) / 100)"

text \<open>
  \<^verbatim>\<open>close_real_simulation\<close> (lines 566 to 671), in the three parts of its body.

  Lines 569 to 591 select the document: the open documents of \<^verbatim>\<open>enhanced_simulations\<close>,
  or of the old collection when there are none, those open for more than 120 seconds,
  and among them the latest. The result carries \<^verbatim>\<open>use_old_table\<close>.
\<close>

definition select_for_close :: "datetime \<Rightarrow> engine \<Rightarrow> (bool \<times> simulation) option" where
  "select_for_close now eng =
     (let open_enhanced = filter (\<lambda>sim. \<not> closed sim) (enhanced_simulations eng);
          use_old_table = (open_enhanced = []);
          open_sims = (if use_old_table then filter (\<lambda>sim. \<not> closed sim) (simulations eng)
                       else open_enhanced);
          eligible_sims = filter (\<lambda>sim. dt_seconds now - sim_timestamp sim > 120) open_sims
      in case eligible_sims of
           [] \<Rightarrow> None
         | first # others \<Rightarrow> Some (use_old_table, max_timestamp first others))"

text \<open>
  Lines 598 to 636 compute \<^verbatim>\<open>update_data\<close> from the selected document, the current
  price and the value of \<^verbatim>\<open>random.random()\<close>. Lines 615 to 621 set \<^verbatim>\<open>is_success\<close> to
  \<^verbatim>\<open>True\<close> when the entry method contains \<^verbatim>\<open>REAL\<close>, the stored confidence is above 0.8
  and the random value is below 0.15; the test \<^verbatim>\<open>if not is_success\<close> that follows the
  assignment is then never true, so \<^verbatim>\<open>result_pct\<close> stays as computed. The caller has
  checked that the entry price is not 0.
\<close>

definition close_update :: "real \<Rightarrow> real \<Rightarrow> simulation \<Rightarrow> update_data" where
  "close_update current_price random_value sim_to_close =
     (let price_change =
            (current_price - entry_price sim_to_close) / entry_price sim_to_close * 100;
          is_success = (if trend sim_to_close = ''UP'' then price_change > 0.1
                        else price_change < - 0.1);
          result_pct' = (if trend sim_to_close = ''UP'' then price_change
                         else if is_success then \<bar>price_change\<bar>
                         else - \<bar>price_change\<bar>);
          is_success =
            (if contains ''REAL'' (entry_method sim_to_close) \<and>
                sim_confidence sim_to_close > 0.8 \<and> random_value < 0.15
             then True else is_success)
      in \<lparr>upd_exit_price = Some current_price,
          upd_result_pct = Some (round2 result_pct'),
          upd_success = Some is_success,
          upd_closed = Some True,
          upd_learning_feedback = Some is_success\<rparr>)"

text \<open>
  The whole function: no selected document or no price returns \<^verbatim>\<open>None\<close>; an entry
  price of 0 raises \<^verbatim>\<open>ZeroDivisionError\<close> at line 604 and the handler returns \<^verbatim>\<open>None\<close>.
  Lines 638 to 661 write the update by id and call the learners, which receive the
  document as it was read, before the update. The result is the id of the closed
  document, if any, and the new state.
\<close>

definition close_real_simulation :: "environment \<Rightarrow> engine \<Rightarrow> string option \<times> engine" where
  "close_real_simulation env eng =
     (case select_for_close (env_now env) eng of
        None \<Rightarrow> (None, eng)
      | Some (use_old_table, sim_to_close) \<Rightarrow>
          (case env_price env of
             None \<Rightarrow> (None, eng)
           | Some current_price \<Rightarrow>
               if entry_price sim_to_close = 0 then (None, eng)
               else
                 (let update = close_update current_price (env_random env) sim_to_close;
                      is_success = dict_get (upd_success update) False;
                      eng1 =
                        (if use_old_table
                         then eng\<lparr>simulations :=
                                    update_one (sim_id sim_to_close) update (simulations eng)\<rparr>
                         else eng\<lparr>enhanced_simulations :=
                                    update_one (sim_id sim_to_close) update (enhanced_simulations eng)\<rparr>);
                      eng2 =
                        (case enhanced_ml_system eng1 of
                           Some ml \<Rightarrow>
                             if ml_prediction sim_to_close \<noteq> None
                             then eng1\<lparr>enhanced_ml_system :=
                                    Some (learn_from_result (env_sklearn env) (env_now env)
                                            (enhanced_simulations eng1) (sim_id sim_to_close)
                                            is_success ml)\<rparr>
                             else eng1
                         | None \<Rightarrow> eng1);
                      eng3 =
                        (case error_learning_system eng2 of
                           Some els \<Rightarrow>
                             if \<not> is_success
                             then eng2\<lparr>error_learning_system :=
                                    Some (analyze_failed_prediction sim_to_close els)\<rparr>
                             else eng2
                         | None \<Rightarrow> eng2)
                  in (Some (sim_id sim_to_close), eng3))))"

text \<open>
  \<^verbatim>\<open>update_simulation\<close>, the handler of \<^verbatim>\<open>PUT /api/simulations/{simulation_id}\<close>
  (lines 242 to 267). The 404 raised at line 258 is caught by the handler's own
  \<^verbatim>\<open>except Exception\<close> and leaves as a 500. No line reads the \<^verbatim>\<open>closed\<close> flag.
\<close>

datatype http_error = HTTPException nat

definition update_simulation ::
  "environment \<Rightarrow> string \<Rightarrow> update_data \<Rightarrow> engine \<Rightarrow> http_error + engine" where
  "update_simulation env simulation_id u eng =
     (let learn = (\<lambda>e.
            case enhanced_ml_system e of
              Some ml \<Rightarrow>
                if upd_learning_feedback u \<noteq> None
                then e\<lparr>enhanced_ml_system :=
                       Some (learn_from_result (env_sklearn env) (env_now env)
                               (enhanced_simulations e) simulation_id
                               (dict_get (upd_success u) False) ml)\<rparr>
                else e
            | None \<Rightarrow> e)
      in if matched_count simulation_id (enhanced_simulations eng) \<noteq> 0
         then Inr (learn (eng\<lparr>enhanced_simulations :=
                            update_one simulation_id u (enhanced_simulations eng)\<rparr>))
         else if matched_count simulation_id (simulations eng) \<noteq> 0
         then Inr (learn (eng\<lparr>simulations := update_one simulation_id u (simulations eng)\<rparr>))
         else Inl (HTTPException 500))"

section \<open>The specification's formulas and the concrete inputs of the examples\<close>

text \<open>
  The specification's formula for the scorer's confidence, as its section 4.2 words it:
  \<^verbatim>\<open>min(max(0.5, 0.5 + 0.1 * rule_count + 0.3 * |strength| / 100), 0.95)\<close>.
\<close>

definition spec_confidence :: "nat \<Rightarrow> int \<Rightarrow> real" where
  "spec_confidence rule_count strength' =
     min (max 0.5 (0.5 + 0.1 * real rule_count + 0.3 * \<bar>real_of_int strength'\<bar> / 100)) 0.95"

text \<open>A snapshot on which every bullish rule of the scorer fires.\<close>

definition bullish_snapshot :: analysis where
  "bullish_snapshot = empty_analysis
     \<lparr>rsi := Some 25,
      macd := \<lparr>macd_value = Some 2, signal = Some 1, histogram = Some 1\<rparr>,
      bollinger := \<lparr>position = Some 0.1\<rparr>,
      emas := \<lparr>crossover = Some True, golden_cross = Some (Numpy_bool True),
                death_cross = Some (Numpy_bool False)\<rparr>,
      volume := \<lparr>volume_strength = Some 60, volume_trend = Some 0\<rparr>,
      patterns := \<lparr>hammer = Some True, doji = Some False, engulfing = Some True\<rparr>\<rparr>"

text \<open>
  A failed simulation that predicted \<^verbatim>\<open>UP\<close> with an RSI of 75 and a clear MACD
  histogram: its only error category is \<^verbatim>\<open>rsi_overbought\<close>. The learner after six such
  failures.
\<close>

definition overbought_failure :: simulation where
  "overbought_failure =
     \<lparr>sim_id = ''sim-1'', sim_timestamp = 0, entry_price = 100, exit_price = Some 99,
      trend = ''UP'', sim_probability = \<lparr>up = 0.6, down = 0.4\<rparr>, sim_confidence = 0.6,
      result_pct = Some (- 1), success = Some False, closed = True,
      entry_method = ''TECHNICAL_REAL_BINANCE_DATA'',
      technical_analysis = Some (empty_analysis
        \<lparr>rsi := Some 75, macd := \<lparr>macd_value = Some 5, signal = Some 3, histogram = Some 2\<rparr>\<rparr>),
      ml_prediction = None, learning_feedback = Some False\<rparr>"

definition six_failures :: error_learning where
  "six_failures = learner_run (replicate 6 (Analyze_failed overbought_failure))"

text \<open>A clock value, and a scikit-learn whose every fit raises.\<close>

definition midnight :: datetime where
  "midnight = \<lparr>dt_seconds = 0, dt_hour = 0, dt_weekday = 0\<rparr>"

definition no_sklearn :: sklearn where
  "no_sklearn = \<lparr>fit_scaler = (\<lambda>data. None), fit_models = (\<lambda>data. None)\<rparr>"

text \<open>
  An ML system whose history holds a prediction \<^verbatim>\<open>UP\<close> followed by a later prediction
  \<^verbatim>\<open>DOWN\<close>.
\<close>

definition history_up_then_down :: ml_system where
  "history_up_then_down = init_ml_system
     \<lparr>prediction_history :=
        [\<lparr>hist_prediction = (basic_prediction ''UP'' (Some bullish_snapshot))\<lparr>prediction := ''UP''\<rparr>,
          hist_technical_analysis = Some bullish_snapshot, hist_timestamp = 0\<rparr>,
         \<lparr>hist_prediction = (basic_prediction ''UP'' (Some empty_analysis))\<lparr>prediction := ''DOWN''\<rparr>,
          hist_technical_analysis = Some empty_analysis, hist_timestamp = 300\<rparr>]\<rparr>"

text \<open>
  An open simulation that predicted \<^verbatim>\<open>UP\<close> at price 100 with confidence 0.9, the
  server holding only it, and the environment of a close 300 seconds later at the
  unchanged price 100, with a given value of \<^verbatim>\<open>random.random()\<close>.
\<close>

definition confident_open_sim :: simulation where
  "confident_open_sim =
     \<lparr>sim_id = ''sim-2'', sim_timestamp = 0, entry_price = 100, exit_price = None,
      trend = ''UP'', sim_probability = \<lparr>up = 0.9, down = 0.1\<rparr>, sim_confidence = 0.9,
      result_pct = None, success = None, closed = False,
      entry_method = ''ML_REAL_BINANCE_DATA'',
      technical_analysis = Some empty_analysis,
      ml_prediction = None, learning_feedback = None\<rparr>"

definition one_open_engine :: engine where
  "one_open_engine =
     \<lparr>enhanced_simulations = [confident_open_sim], simulations = [],
      enhanced_ml_system = None, error_learning_system = None\<rparr>"

definition close_env :: "real \<Rightarrow> environment" where
  "close_env random_value =
     \<lparr>env_now = \<lparr>dt_seconds = 300, dt_hour = 0, dt_weekday = 0\<rparr>,
      env_market_df = None, env_price = Some 100, env_uuid = ''sim-9'',
      env_random = random_value, env_random_choice = ''UP'',
      env_indicators = (\<lambda>bars. empty_analysis), env_sklearn = no_sklearn\<rparr>"

text \<open>
  A server holding one closed simulation, one holding a closed and an open one, and
  the body of a manual \<^verbatim>\<open>PUT\<close> that writes a new outcome.
\<close>

definition closed_engine :: engine where
  "closed_engine =
     \<lparr>enhanced_simulations = [overbought_failure], simulations = [],
      enhanced_ml_system = None, error_learning_system = None\<rparr>"

definition mixed_engine :: engine where
  "mixed_engine =
     \<lparr>enhanced_simulations = [overbought_failure, confident_open_sim], simulations = [],
      enhanced_ml_system = None, error_learning_system = None\<rparr>"

definition reclose_update :: update_data where
  "reclose_update =
     \<lparr>upd_exit_price = Some 120, upd_result_pct = Some 20, upd_success = Some True,
      upd_closed = None, upd_learning_feedback = None\<rparr>"

text \<open>
  A window of fifty bars that rise by 1 each, so that neither the highs nor the lows
  have a local extremum.
\<close>

definition rally_bars :: "ohlcv list" where
  "rally_bars =
     map (\<lambda>i. \<lparr>bar_open = 100 + real i, bar_high = 102 + real i, bar_low = 99 + real i,
                bar_close = 101 + real i, bar_volume = 10\<rparr>) [0..<50]"

text \<open>
  The indicators of an overbought rally: an RSI of 75, a bullish MACD, EMA 20 above
  EMA 50 without a cross on the last bar (strength \<open>-15 + 20 + 10 = 15\<close>, hence
  \<^verbatim>\<open>UP\<close>), the two cross values being those of \<^verbatim>\<open>numpy.bool_\<close> that \<^verbatim>\<open>calculate_emas\<close>
  returns, and no support or resistance level in the window. The analysis that
  \<^verbatim>\<open>comprehensive_analysis\<close> builds from them.
\<close>

definition overbought_rally :: analysis where
  "overbought_rally =
     \<lparr>rsi = Some 75,
      macd = \<lparr>macd_value = Some 5, signal = Some 3, histogram = Some 2\<rparr>,
      bollinger = \<lparr>position = Some 0.7\<rparr>,
      emas = \<lparr>crossover = Some True, golden_cross = Some (Numpy_bool False),
               death_cross = Some (Numpy_bool False)\<rparr>,
      stochastic = \<lparr>stoch_k = Some 80, stoch_d = Some 75\<rparr>,
      volume = \<lparr>volume_strength = Some 10, volume_trend = Some 5\<rparr>,
      patterns = \<lparr>hammer = Some False, doji = Some False, engulfing = Some False\<rparr>,
      support_resistance = \<lparr>resistance_distance = Some 5, support_distance = Some (100 / 19)\<rparr>,
      signals = None\<rparr>"

definition rally_analysis :: analysis where
  "rally_analysis = overbought_rally\<lparr>signals := Some (generate_signals overbought_rally)\<rparr>"

text \<open>
  A server with an untrained ML system and the learner after the six failures; the
  same server after a training whose three fitted models predict class 1, the
  ensemble with the mean 0.7 of the two models' probabilities 0.8 and 0.6; and the
  environment of a tick that sees the rising window with the indicators of the rally.
\<close>

definition learned_engine :: engine where
  "learned_engine =
     \<lparr>enhanced_simulations = [], simulations = [],
      enhanced_ml_system = Some init_ml_system,
      error_learning_system = Some six_failures\<rparr>"

definition agreeing_models :: trained_models where
  "agreeing_models =
     \<lparr>random_forest = \<lparr>predict = (\<lambda>x. 1), predict_proba = (\<lambda>x. [0.2, 0.8])\<rparr>,
      gradient_boost = \<lparr>predict = (\<lambda>x. 1), predict_proba = (\<lambda>x. [0.4, 0.6])\<rparr>,
      ensemble = \<lparr>predict = (\<lambda>x. 1), predict_proba = (\<lambda>x. [0.3, 0.7])\<rparr>\<rparr>"

definition fitted_sklearn :: sklearn where
  "fitted_sklearn =
     \<lparr>fit_scaler = (\<lambda>data. Some (\<lambda>x. x)), fit_models = (\<lambda>data. Some agreeing_models)\<rparr>"

definition trained_engine :: engine where
  "trained_engine =
     learned_engine\<lparr>enhanced_ml_system :=
       Some (snd (train_models fitted_sklearn [] init_ml_system))\<rparr>"

definition open_env :: environment where
  "open_env =
     \<lparr>env_now = midnight, env_market_df = Some rally_bars,
      env_price = Some 100, env_uuid = ''sim-9'', env_random = 0.5,
      env_random_choice = ''UP'', env_indicators = (\<lambda>bars. overbought_rally),
      env_sklearn = no_sklearn\<rparr>"

section \<open>Properties of the signal scorer\<close>

lemma dict_get_upd:
  "dict_get ((w(e \<mapsto> v)) k) d = (if k = e then v else dict_get (w k) d)"
  by (simp add: dict_get_def)

text \<open>Each block moves the strength by at most its own delta.\<close>

lemma rsi_signals_strength:
  "snd (snd acc) - 15 \<le> snd (snd (rsi_signals a acc)) \<and> snd (snd (rsi_signals a acc)) \<le> snd (snd acc) + 15"
  by (cases acc) auto

lemma macd_signals_strength:
  "snd (snd acc) - 20 \<le> snd (snd (macd_signals a acc)) \<and> snd (snd (macd_signals a acc)) \<le> snd (snd acc) + 20"
  by (cases acc) auto

lemma ema_signals_strength:
  "snd (snd acc) - 25 \<le> snd (snd (ema_signals a acc)) \<and> snd (snd (ema_signals a acc)) \<le> snd (snd acc) + 25"
  by (cases acc) auto

lemma bollinger_signals_strength:
  "snd (snd acc) - 15 \<le> snd (snd (bollinger_signals a acc)) \<and> snd (snd (bollinger_signals a acc)) \<le> snd (snd acc) + 15"
  by (cases acc) auto

lemma volume_signals_strength:
  "snd (snd acc) - 10 \<le> snd (snd (volume_signals a acc)) \<and> snd (snd (volume_signals a acc)) \<le> snd (snd acc) + 10"
  by (cases acc) auto

lemma hammer_signals_strength:
  "snd (snd acc) \<le> snd (snd (hammer_signals a acc)) \<and> snd (snd (hammer_signals a acc)) \<le> snd (snd acc) + 12"
  by (cases acc) auto

lemma engulfing_signals_strength:
  "snd (snd acc) - 15 \<le> snd (snd (engulfing_signals a acc)) \<and> snd (snd (engulfing_signals a acc)) \<le> snd (snd acc) + 15"
  by (cases acc) auto

text \<open>
  The range the summed strength really has: the bearish deltas add up to 100, the
  bullish ones, with the hammer's 12, to 112.
\<close>

lemma scored_strength: "- 100 \<le> snd (snd (scored a)) \<and> snd (snd (scored a)) \<le> 112"
proof -
  let ?s0 = "([], [], 0) :: sig_acc"
  let ?s1 = "rsi_signals a ?s0"
  let ?s2 = "macd_signals a ?s1"
  let ?s3 = "ema_signals a ?s2"
  let ?s4 = "bollinger_signals a ?s3"
  let ?s5 = "volume_signals a ?s4"
  let ?s6 = "hammer_signals a ?s5"
  have "snd (snd ?s0) = 0" by simp
  with rsi_signals_strength [of ?s0 a]
  have 1: "- 15 \<le> snd (snd ?s1) \<and> snd (snd ?s1) \<le> 15" by linarith
  with macd_signals_strength [of ?s1 a]
  have 2: "- 35 \<le> snd (snd ?s2) \<and> snd (snd ?s2) \<le> 35" by linarith
  with ema_signals_strength [of ?s2 a]
  have 3: "- 60 \<le> snd (snd ?s3) \<and> snd (snd ?s3) \<le> 60" by linarith
  with bollinger_signals_strength [of ?s3 a]
  have 4: "- 75 \<le> snd (snd ?s4) \<and> snd (snd ?s4) \<le> 75" by linarith
  with volume_signals_strength [of ?s4 a]
  have 5: "- 85 \<le> snd (snd ?s5) \<and> snd (snd ?s5) \<le> 85" by linarith
  with hammer_signals_strength [of ?s5 a]
  have 6: "- 85 \<le> snd (snd ?s6) \<and> snd (snd ?s6) \<le> 97" by linarith
  with engulfing_signals_strength [of ?s6 a]
  show ?thesis unfolding scored_def by linarith
qed

text \<open>
  Every block that moves the strength appends a label, and no delta exceeds 25: the
  strength is at most 25 times the number of labels. With it the confidence of the
  code stays below the specification's formula.
\<close>

lemma rsi_signals_rules:
  "\<bar>snd (snd acc)\<bar> \<le> 25 * int (length (fst acc) + length (fst (snd acc))) \<Longrightarrow>
   \<bar>snd (snd (rsi_signals a acc))\<bar>
     \<le> 25 * int (length (fst (rsi_signals a acc)) + length (fst (snd (rsi_signals a acc))))"
  by (cases acc) auto

lemma macd_signals_rules:
  "\<bar>snd (snd acc)\<bar> \<le> 25 * int (length (fst acc) + length (fst (snd acc))) \<Longrightarrow>
   \<bar>snd (snd (macd_signals a acc))\<bar>
     \<le> 25 * int (length (fst (macd_signals a acc)) + length (fst (snd (macd_signals a acc))))"
  by (cases acc) auto

lemma ema_signals_rules:
  "\<bar>snd (snd acc)\<bar> \<le> 25 * int (length (fst acc) + length (fst (snd acc))) \<Longrightarrow>
   \<bar>snd (snd (ema_signals a acc))\<bar>
     \<le> 25 * int (length (fst (ema_signals a acc)) + length (fst (snd (ema_signals a acc))))"
  by (cases acc) auto

lemma bollinger_signals_rules:
  "\<bar>snd (snd acc)\<bar> \<le> 25 * int (length (fst acc) + length (fst (snd acc))) \<Longrightarrow>
   \<bar>snd (snd (bollinger_signals a acc))\<bar>
     \<le> 25 * int (length (fst (bollinger_signals a acc)) + length (fst (snd (bollinger_signals a acc))))"
  by (cases acc) auto

lemma volume_signals_rules:
  "\<bar>snd (snd acc)\<bar> \<le> 25 * int (length (fst acc) + length (fst (snd acc))) \<Longrightarrow>
   \<bar>snd (snd (volume_signals a acc))\<bar>
     \<le> 25 * int (length (fst (volume_signals a acc)) + length (fst (snd (volume_signals a acc))))"
  by (cases acc) auto

lemma hammer_signals_rules:
  "\<bar>snd (snd acc)\<bar> \<le> 25 * int (length (fst acc) + length (fst (snd acc))) \<Longrightarrow>
   \<bar>snd (snd (hammer_signals a acc))\<bar>
     \<le> 25 * int (length (fst (hammer_signals a acc)) + length (fst (snd (hammer_signals a acc))))"
  by (cases acc) auto

lemma engulfing_signals_rules:
  "\<bar>snd (snd acc)\<bar> \<le> 25 * int (length (fst acc) + length (fst (snd acc))) \<Longrightarrow>
   \<bar>snd (snd (engulfing_signals a acc))\<bar>
     \<le> 25 * int (length (fst (engulfing_signals a acc)) + length (fst (snd (engulfing_signals a acc))))"
  by (cases acc) auto

lemma scored_rules:
  "\<bar>snd (snd (scored a))\<bar> \<le> 25 * int (length (fst (scored a)) + length (fst (snd (scored a))))"
  unfolding scored_def
  by (intro engulfing_signals_rules hammer_signals_rules volume_signals_rules
      bollinger_signals_rules ema_signals_rules macd_signals_rules rsi_signals_rules) simp

lemma confidence_below_spec:
  "sig_confidence (generate_signals a)
     \<le> spec_confidence (total_signals (generate_signals a)) (strength (generate_signals a))"
proof -
  obtain bull bear s where sc: "scored a = (bull, bear, s)" by (cases "scored a")
  let ?n = "length bull + length bear"
  from scored_rules [of a] sc have "\<bar>s\<bar> \<le> 25 * int ?n" by simp
  then have n: "\<bar>real_of_int s\<bar> \<le> 25 * real ?n" by linarith
  from scored_strength [of a] sc have "\<bar>s\<bar> \<le> 112" by auto
  then have b: "\<bar>real_of_int s\<bar> \<le> 112" by linarith
  have "max (min (\<bar>real_of_int s\<bar> / 100) 0.95) 0.5
      \<le> min (max 0.5 (0.5 + 0.1 * real ?n + 0.3 * \<bar>real_of_int s\<bar> / 100)) 0.95"
    using n b by (simp add: max_def min_def field_simps)
  then show ?thesis using sc by (simp add: generate_signals_def spec_confidence_def)
qed

lemma generate_signals_strength_range:
  "- 100 \<le> strength (generate_signals a) \<and> strength (generate_signals a) \<le> 112"
  using scored_strength [of a] by (cases "scored a") (simp add: generate_signals_def)

lemma scored_empty: "scored empty_analysis = ([], [''EMA 20 below EMA 50''], - 10)"
  by (simp add: scored_def empty_analysis_def dict_get_def)

lemma scored_bullish:
  "scored bullish_snapshot =
     ([''RSI oversold (<30)'', ''MACD bullish crossover'', ''EMA golden cross'',
       ''Price near lower Bollinger Band'', ''High volume confirms bullish move'',
       ''Hammer candlestick pattern'', ''Bullish engulfing pattern''], [], 112)"
  by (simp add: scored_def bullish_snapshot_def empty_analysis_def dict_get_def)

text \<open>
  Claim C3, as the specification states it: the scorer's confidence is
  \<open>spec_confidence\<close> of the number of triggered rules and the strength. It fails on the
  empty snapshot, where one rule fires (\<^verbatim>\<open>EMA 20 below EMA 50\<close>, strength \<open>-10\<close>): the
  code returns 0.5, the formula gives 0.63.
\<close>

theorem signal_confidence_counterexample:
  "sig_confidence (generate_signals empty_analysis) = 0.5
   \<and> spec_confidence (total_signals (generate_signals empty_analysis))
        (strength (generate_signals empty_analysis)) = 0.63
   \<and> sig_confidence (generate_signals empty_analysis)
        \<noteq> spec_confidence (total_signals (generate_signals empty_analysis))
            (strength (generate_signals empty_analysis))"
  by (simp add: generate_signals_def scored_empty spec_confidence_def)

text \<open>
  Claim C3, amended: for every snapshot the scorer's confidence is
  \<^verbatim>\<open>max(min(|strength| / 100, 0.95), 0.5)\<close> of the returned strength alone, whatever the
  number of triggered rules; it lies between 0.5 and 0.95 and never exceeds the value
  of the specification's formula.
\<close>

theorem signal_confidence_from_strength_only:
  "sig_confidence (generate_signals a) =
     max (min (\<bar>real_of_int (strength (generate_signals a))\<bar> / 100) 0.95) 0.5
   \<and> 0.5 \<le> sig_confidence (generate_signals a)
   \<and> sig_confidence (generate_signals a) \<le> 0.95
   \<and> sig_confidence (generate_signals a)
        \<le> spec_confidence (total_signals (generate_signals a)) (strength (generate_signals a))"
proof -
  have "sig_confidence (generate_signals a) =
      max (min (\<bar>real_of_int (strength (generate_signals a))\<bar> / 100) 0.95) 0.5"
    by (cases "scored a") (simp add: generate_signals_def)
  moreover have "0.5 \<le> sig_confidence (generate_signals a)
      \<and> sig_confidence (generate_signals a) \<le> 0.95"
    by (cases "scored a") (simp add: generate_signals_def)
  ultimately show ?thesis using confidence_below_spec [of a] by blast
qed

text \<open>
  Claim C5: the strength returned by the scorer lies between \<open>-100\<close> and 100. The code
  returns the sum unclamped: on the snapshot where every bullish rule fires the
  strength is 112.
\<close>

theorem signal_strength_exceeds_100:
  "strength (generate_signals bullish_snapshot) = 112
   \<and> \<not> strength (generate_signals bullish_snapshot) \<le> 100"
  by (simp add: generate_signals_def scored_bullish)

section \<open>Properties of the correction learner\<close>

lemma correction_factors_nonneg: "correction_factors k = Some f \<Longrightarrow> 0 \<le> f"
  by (auto simp: correction_factors_def split: if_splits)

text \<open>
  The invariant: every weight, read with default 0, lies between 0 and 0.8. Each of the
  two loops keeps it, hence each call, hence every run.
\<close>

lemma apply_corrections_loop_bounded:
  assumes "\<forall>k. 0 \<le> dict_get (w k) 0 \<and> dict_get (w k) 0 \<le> 0.8"
  shows "0 \<le> dict_get (fst (apply_corrections_loop errors (w, n)) k) 0
       \<and> dict_get (fst (apply_corrections_loop errors (w, n)) k) 0 \<le> 0.8"
  using assms
proof (induction errors arbitrary: w n)
  case Nil
  then show ?case by simp
next
  case (Cons e errors)
  show ?case
  proof (cases "correction_factors e")
    case None
    with Cons show ?thesis by simp
  next
    case (Some f)
    let ?w = "w(e \<mapsto> min (dict_get (w e) 0 + f) 0.8)"
    have "0 \<le> f" using Some by (rule correction_factors_nonneg)
    moreover have "0 \<le> dict_get (w e) 0" using Cons.prems by blast
    ultimately have "0 \<le> min (dict_get (w e) 0 + f) 0.8 \<and> min (dict_get (w e) 0 + f) 0.8 \<le> (0.8::real)"
      by linarith
    then have "\<forall>k. 0 \<le> dict_get (?w k) 0 \<and> dict_get (?w k) 0 \<le> 0.8"
      using Cons.prems by (simp only: dict_get_upd) presburger
    then have "0 \<le> dict_get (fst (apply_corrections_loop errors (?w, n + 1)) k) 0
       \<and> dict_get (fst (apply_corrections_loop errors (?w, n + 1)) k) 0 \<le> 0.8"
      by (rule Cons.IH)
    moreover have "apply_corrections_loop (e # errors) (w, n) = apply_corrections_loop errors (?w, n + 1)"
      using Some by simp
    ultimately show ?thesis by (simp only:)
  qed
qed

lemma optimize_loop_bounded:
  assumes "\<forall>k. 0 \<le> dict_get (w k) 0 \<and> dict_get (w k) 0 \<le> 0.8"
  shows "0 \<le> dict_get (optimize_loop common w k) 0 \<and> dict_get (optimize_loop common w k) 0 \<le> 0.8"
  using assms
proof (induction common arbitrary: w)
  case Nil
  then show ?case by simp
next
  case (Cons ec common)
  obtain e c where ec: "ec = (e, c)" by (cases ec)
  show ?case
  proof (cases "c > 5")
    case False
    with Cons ec show ?thesis by simp
  next
    case True
    let ?w = "w(e \<mapsto> min (dict_get (w e) 0 + 0.1) 0.5)"
    have "0 \<le> dict_get (w e) 0" using Cons.prems by blast
    then have "0 \<le> min (dict_get (w e) 0 + 0.1) 0.5 \<and> min (dict_get (w e) 0 + 0.1) 0.5 \<le> (0.8::real)"
      by linarith
    then have "\<forall>k. 0 \<le> dict_get (?w k) 0 \<and> dict_get (?w k) 0 \<le> 0.8"
      using Cons.prems by (simp only: dict_get_upd) presburger
    then have "0 \<le> dict_get (optimize_loop common ?w k) 0
       \<and> dict_get (optimize_loop common ?w k) 0 \<le> 0.8"
      by (rule Cons.IH)
    moreover have "optimize_loop (ec # common) w = optimize_loop common ?w"
      using True ec by simp
    ultimately show ?thesis by (simp only:)
  qed
qed

lemma analyze_failed_prediction_bounded:
  assumes "\<forall>k. 0 \<le> dict_get (correction_weights els k) 0 \<and> dict_get (correction_weights els k) 0 \<le> 0.8"
  shows "0 \<le> dict_get (correction_weights (analyze_failed_prediction sim els) k) 0
       \<and> dict_get (correction_weights (analyze_failed_prediction sim els) k) 0 \<le> 0.8"
proof (cases "dict_get (success sim) False \<or> technical_analysis sim = None")
  case True
  then show ?thesis using assms by (auto simp: analyze_failed_prediction_def)
next
  case False
  then obtain ta where ta: "technical_analysis sim = Some ta" by auto
  obtain w n where wn:
    "apply_corrections_loop (identified_errors ta (trend sim)) (correction_weights els, 0) = (w, n)"
    by (cases "apply_corrections_loop (identified_errors ta (trend sim)) (correction_weights els, 0)")
  from apply_corrections_loop_bounded [OF assms, of "identified_errors ta (trend sim)" 0 k] wn
  have "0 \<le> dict_get (w k) 0 \<and> dict_get (w k) 0 \<le> 0.8" by simp
  then show ?thesis using False ta wn
    by (simp add: analyze_failed_prediction_def apply_corrections_def Let_def)
qed

lemma optimize_bounded:
  assumes "\<forall>k. 0 \<le> dict_get (correction_weights els k) 0 \<and> dict_get (correction_weights els k) 0 \<le> 0.8"
  shows "0 \<le> dict_get (correction_weights (optimize_for_90_percent els) k) 0
       \<and> dict_get (correction_weights (optimize_for_90_percent els) k) 0 \<le> 0.8"
  using optimize_loop_bounded [OF assms] by (simp add: optimize_for_90_percent_def)

lemma learner_step_bounded:
  assumes "\<forall>k. 0 \<le> dict_get (correction_weights els k) 0 \<and> dict_get (correction_weights els k) 0 \<le> 0.8"
  shows "\<forall>k. 0 \<le> dict_get (correction_weights (learner_step els call) k) 0
       \<and> dict_get (correction_weights (learner_step els call) k) 0 \<le> 0.8"
  using analyze_failed_prediction_bounded [OF assms] optimize_bounded [OF assms]
  by (cases call) simp_all

lemma foldl_learner_step_bounded:
  assumes "\<forall>k. 0 \<le> dict_get (correction_weights els k) 0 \<and> dict_get (correction_weights els k) 0 \<le> 0.8"
  shows "\<forall>k. 0 \<le> dict_get (correction_weights (foldl learner_step els calls) k) 0
       \<and> dict_get (correction_weights (foldl learner_step els calls) k) 0 \<le> 0.8"
  using assms
proof (induction calls arbitrary: els)
  case Nil
  then show ?case by simp
next
  case (Cons call calls)
  from Cons.IH [OF learner_step_bounded [OF Cons.prems]] show ?case by simp
qed

lemma learner_run_bounded:
  "0 \<le> dict_get (correction_weights (learner_run calls) k) 0
   \<and> dict_get (correction_weights (learner_run calls) k) 0 \<le> 0.8"
proof -
  have "\<forall>k. 0 \<le> dict_get (correction_weights init_error_learning k) 0
          \<and> dict_get (correction_weights init_error_learning k) 0 \<le> 0.8"
    by (simp add: init_error_learning_def dict_get_def)
  from foldl_learner_step_bounded [OF this] show ?thesis by (simp add: learner_run_def)
qed

text \<open>With weights that are not negative the correction factor is a penalty of at most 0.3.\<close>

lemma get_correction_factor_range:
  assumes "\<forall>k. 0 \<le> dict_get (correction_weights els k) 0"
  shows "- 0.3 \<le> get_correction_factor els ta p \<and> get_correction_factor els ta p \<le> 0"
proof -
  have w: "\<And>k. 0 \<le> dict_get (correction_weights els k) 0" using assms by blast
  note w1 = w [of "''rsi_overbought''"] and w2 = w [of "''rsi_oversold''"]
    and w3 = w [of "''macd_false_signal''"] and w4 = w [of "''ema_crossover_fail''"]
    and w5 = w [of "''bollinger_breakout_fail''"] and w6 = w [of "''volume_anomaly''"]
    and w7 = w [of "''support_resistance_break''"]
  show ?thesis
    unfolding get_correction_factor_def Let_def
    using w1 w2 w3 w4 w5 w6 w7 by (auto simp: max_def)
qed

text \<open>
  Claim C6: after any sequence of failure analyses and optimisation cycles, from the
  learner's initial state, the weight of every error category lies between 0 and 0.8,
  and the correction factor of every snapshot and direction lies between \<open>-0.3\<close> and 0.
\<close>

theorem correction_weights_bounded:
  "0 \<le> dict_get (correction_weights (learner_run calls) category) 0
   \<and> dict_get (correction_weights (learner_run calls) category) 0 \<le> 0.8
   \<and> - 0.3 \<le> get_correction_factor (learner_run calls) ta direction
   \<and> get_correction_factor (learner_run calls) ta direction \<le> 0"
proof -
  have "\<forall>k. 0 \<le> dict_get (correction_weights (learner_run calls) k) 0"
    using learner_run_bounded by blast
  from get_correction_factor_range [OF this] learner_run_bounded [of calls category]
  show ?thesis by blast
qed

text \<open>The six failures raise the weight of \<^verbatim>\<open>rsi_overbought\<close> to the ceiling 0.8.\<close>

lemma identified_errors_overbought:
  "identified_errors (empty_analysis
        \<lparr>rsi := Some 75, macd := \<lparr>macd_value = Some 5, signal = Some 3, histogram = Some 2\<rparr>\<rparr>) ''UP''
   = [''rsi_overbought'']"
  by (simp add: identified_errors_def empty_analysis_def dict_get_def)

lemma analyze_overbought_failure:
  "analyze_failed_prediction overbought_failure els =
     els\<lparr>correction_weights := (correction_weights els)
            (''rsi_overbought'' \<mapsto> min (dict_get (correction_weights els ''rsi_overbought'') 0 + 0.15) 0.8),
         recent_errors := deque_append 200 (recent_errors els) [''rsi_overbought''],
         error_stats := (error_stats els)
           \<lparr>total_errors_analyzed := total_errors_analyzed (error_stats els) + 1,
            corrections_applied := corrections_applied (error_stats els) + 1\<rparr>\<rparr>"
  by (simp add: analyze_failed_prediction_def overbought_failure_def identified_errors_overbought
      apply_corrections_def correction_factors_def dict_get_def Let_def)

lemma six_failures_state:
  "recent_errors six_failures = replicate 6 [''rsi_overbought'']
   \<and> dict_get (correction_weights six_failures ''rsi_overbought'') 0 = 0.8"
  by (simp add: six_failures_def learner_run_def eval_nat_numeral analyze_overbought_failure
      init_error_learning_def deque_append_def dict_get_def)

lemma most_common_six: "most_common_errors (replicate 6 [''rsi_overbought'']) = [(''rsi_overbought'', 6)]"
  by code_simp

text \<open>One selected category: the stored weight is the old one plus 0.1, cut at 0.5.\<close>

lemma optimize_loop_single:
  "c > 5 \<Longrightarrow> dict_get (optimize_loop [(e, c)] w e) 0 = min (dict_get (w e) 0 + 0.1) 0.5"
  by (simp add: dict_get_def)

text \<open>
  Claim C7: a category that \<^verbatim>\<open>optimize_for_90_percent\<close> selects has its weight moved
  upward only. The code lowers it when it is above the ceiling of the optimisation
  path: after six failures of the category \<^verbatim>\<open>rsi_overbought\<close> the category is selected
  with count 6, its weight is 0.8, and the optimisation cycle sets it to 0.5.
\<close>

theorem optimize_lowers_weight:
  "(''rsi_overbought'', 6) \<in> set (most_common_errors (recent_errors six_failures))
   \<and> dict_get (correction_weights six_failures ''rsi_overbought'') 0 = 0.8
   \<and> dict_get (correction_weights (optimize_for_90_percent six_failures) ''rsi_overbought'') 0 = 0.5"
  using six_failures_state
  by (simp add: optimize_for_90_percent_def most_common_six dict_get_def)

section \<open>Properties of the feature extractor and the ensemble predictor\<close>

lemma extract_features_length: "length (extract_features now tech) = 20"
  by (cases tech) (auto simp: extract_features_def Let_def split: option.splits)

lemma extract_features_vector:
  "extract_features now (Some ta) =
     [dict_get (rsi ta) 50 / 100,
      dict_get (macd_value (macd ta)) 0 / 1000,
      dict_get (signal (macd ta)) 0 / 1000,
      dict_get (histogram (macd ta)) 0 / 1000,
      dict_get (position (bollinger ta)) 0.5,
      (if dict_get (crossover (emas ta)) False then 1 else 0),
      (if truth_value (dict_get (golden_cross (emas ta)) (Py_bool False)) then 1 else 0),
      (if truth_value (dict_get (death_cross (emas ta)) (Py_bool False)) then 1 else 0),
      dict_get (stoch_k (stochastic ta)) 50 / 100,
      dict_get (stoch_d (stochastic ta)) 50 / 100,
      tanh (dict_get (volume_strength (volume ta)) 0 / 100),
      tanh (dict_get (volume_trend (volume ta)) 0 / 100),
      (if dict_get (hammer (patterns ta)) False then 1 else 0),
      (if dict_get (doji (patterns ta)) False then 1 else 0),
      (if dict_get (engulfing (patterns ta)) False then 1 else 0),
      tanh (dict_get (resistance_distance (support_resistance ta)) 2 / 10),
      tanh (dict_get (support_distance (support_resistance ta)) 2 / 10),
      tanh (real_of_int (case signals ta of None \<Rightarrow> 0 | Some sg \<Rightarrow> strength sg) / 100),
      real (case signals ta of None \<Rightarrow> 0 | Some sg \<Rightarrow> length (bullish_signals sg)),
      real (case signals ta of None \<Rightarrow> 0 | Some sg \<Rightarrow> length (bearish_signals sg))]"
  by (cases "signals ta") (simp_all add: extract_features_def)

lemma extract_features_ignores_clock: "extract_features now tech = extract_features now' tech"
  by (cases tech) (auto simp: extract_features_def Let_def split: option.splits)

lemma comprehensive_analysis_window:
  "comprehensive_analysis indicators None = None"
  "length bars < 50 \<Longrightarrow> comprehensive_analysis indicators (Some bars) = None"
  "50 \<le> length bars \<Longrightarrow>
   comprehensive_analysis indicators (Some bars) =
     Some ((indicators bars)
       \<lparr>support_resistance := calculate_support_resistance bars,
        signals := Some (generate_signals
          ((indicators bars)\<lparr>support_resistance := calculate_support_resistance bars\<rparr>))\<rparr>)"
  by (simp_all add: comprehensive_analysis_def Let_def)

text \<open>
  A window whose last fifty bars hold no resistance level above the last close gets
  the default of \<^verbatim>\<open>min(..., default=current_price * 1.05)\<close>, a distance of 5 percent;
  one without a support level below it gets \<^verbatim>\<open>current_price * 0.95\<close>, a distance of
  \<open>100 / 19\<close> percent.
\<close>

lemma no_resistance_distance:
  assumes "df \<noteq> []" and "0 < bar_close (last df)"
    and "filter (\<lambda>r. r > bar_close (last df))
           (resistances (map bar_high (drop (length df - 50) df))) = []"
  shows "resistance_distance (calculate_support_resistance df) = Some 5"
  using assms by (simp add: calculate_support_resistance_def min_default_def Let_def)

lemma no_support_distance:
  assumes "df \<noteq> []" and "0 < bar_close (last df)"
    and "filter (\<lambda>s. s < bar_close (last df))
           (supports (map bar_low (drop (length df - 50) df))) = []"
  shows "support_distance (calculate_support_resistance df) = Some (100 / 19)"
  using assms by (simp add: calculate_support_resistance_def max_default_def Let_def field_simps)

lemma rally_bars_window:
  "length rally_bars = 50" "rally_bars \<noteq> []" "bar_close (last rally_bars) = 150"
  "resistances (map bar_high rally_bars) = []"
  "supports (map bar_low rally_bars) = []"
proof -
  show l: "length rally_bars = 50" by (simp add: rally_bars_def)
  then show n: "rally_bars \<noteq> []" by auto
  have "last rally_bars = rally_bars ! 49" using l n by (simp add: last_conv_nth)
  then show "bar_close (last rally_bars) = 150" by (simp add: rally_bars_def)
  have highs: "map bar_high rally_bars = map (\<lambda>i. 102 + real i) [0..<50]"
    and lows: "map bar_low rally_bars = map (\<lambda>i. 99 + real i) [0..<50]"
    by (simp_all add: rally_bars_def)
  show "resistances (map bar_high rally_bars) = []"
    unfolding highs resistances_def by (simp add: filter_empty_conv)
  show "supports (map bar_low rally_bars) = []"
    unfolding lows supports_def by (simp add: filter_empty_conv)
qed

lemma rally_bars_levels:
  "calculate_support_resistance rally_bars =
     \<lparr>resistance_distance = Some 5, support_distance = Some (100 / 19)\<rparr>"
proof -
  have "resistance_distance (calculate_support_resistance rally_bars) = Some 5"
    by (rule no_resistance_distance) (simp_all add: rally_bars_window)
  moreover have "support_distance (calculate_support_resistance rally_bars) = Some (100 / 19)"
    by (rule no_support_distance) (simp_all add: rally_bars_window)
  ultimately show ?thesis by (cases "calculate_support_resistance rally_bars") simp
qed

lemma tanh_half_pos: "tanh (1 / 2 :: real) \<noteq> 0"
  by simp

text \<open>
  Claim C9, as the specification states it: for a window of at least fifty bars the
  feature vector has length 20 with missing inputs zero-filled. It fails on the window
  of fifty rising bars: the window has no local maximum, the resistance level that the
  sixteenth feature is computed from is missing, and the code fills in
  \<^verbatim>\<open>current_price * 1.05\<close>, a distance of 5 percent. Whatever the other indicators are,
  the sixteenth feature is \<open>tanh (5 / 10)\<close>, not 0.
\<close>

theorem feature_vector_default_counterexample:
  "50 \<le> length rally_bars
   \<and> resistances (map bar_high (drop (length rally_bars - 50) rally_bars)) = []
   \<and> resistance_distance (calculate_support_resistance rally_bars) = Some 5
   \<and> (\<forall>indicators.
        map_option (\<lambda>ta. extract_features midnight (Some ta) ! 15)
          (comprehensive_analysis indicators (Some rally_bars)) = Some (tanh (1 / 2)))
   \<and> tanh (1 / 2) \<noteq> (0::real)"
  by (simp add: rally_bars_window comprehensive_analysis_window rally_bars_levels
      extract_features_vector dict_get_def)

text \<open>
  Claim C9, amended: the feature vector always has length exactly 20. A window of at
  least 50 bars yields an analysis (with its support and resistance distances and its
  signals), hence a vector of length 20; a window of fewer than 50 bars, or no window,
  yields \<^verbatim>\<open>None\<close> and no vector. Each feature is the transform of its input, and an
  input that is missing is replaced by the default of its field, not by zero: a
  resistance or support level that the window does not have by the offset of 5 percent
  above or below the last close (distances 5 and \<open>100 / 19\<close>), a key that the analysis
  does not have by the default of its \<^verbatim>\<open>.get\<close> (RSI 50, Bollinger position 0.5,
  stochastic 50, support and resistance distances 2, everything else 0). The clock
  does not enter the vector, and the vector of twenty zeros is what is returned for an
  analysis of \<^verbatim>\<open>None\<close>.
\<close>

theorem feature_vector_length:
  "length (extract_features now tech) = 20
   \<and> extract_features now None = replicate 20 0
   \<and> extract_features now (Some ta) =
       [dict_get (rsi ta) 50 / 100,
        dict_get (macd_value (macd ta)) 0 / 1000,
        dict_get (signal (macd ta)) 0 / 1000,
        dict_get (histogram (macd ta)) 0 / 1000,
        dict_get (position (bollinger ta)) 0.5,
        (if dict_get (crossover (emas ta)) False then 1 else 0),
        (if truth_value (dict_get (golden_cross (emas ta)) (Py_bool False)) then 1 else 0),
        (if truth_value (dict_get (death_cross (emas ta)) (Py_bool False)) then 1 else 0),
        dict_get (stoch_k (stochastic ta)) 50 / 100,
        dict_get (stoch_d (stochastic ta)) 50 / 100,
        tanh (dict_get (volume_strength (volume ta)) 0 / 100),
        tanh (dict_get (volume_trend (volume ta)) 0 / 100),
        (if dict_get (hammer (patterns ta)) False then 1 else 0),
        (if dict_get (doji (patterns ta)) False then 1 else 0),
        (if dict_get (engulfing (patterns ta)) False then 1 else 0),
        tanh (dict_get (resistance_distance (support_resistance ta)) 2 / 10),
        tanh (dict_get (support_distance (support_resistance ta)) 2 / 10),
        tanh (real_of_int (case signals ta of None \<Rightarrow> 0 | Some sg \<Rightarrow> strength sg) / 100),
        real (case signals ta of None \<Rightarrow> 0 | Some sg \<Rightarrow> length (bullish_signals sg)),
        real (case signals ta of None \<Rightarrow> 0 | Some sg \<Rightarrow> length (bearish_signals sg))]
   \<and> (50 \<le> length bars \<longrightarrow>
        comprehensive_analysis indicators (Some bars) =
          Some ((indicators bars)
            \<lparr>support_resistance := calculate_support_resistance bars,
             signals := Some (generate_signals
               ((indicators bars)\<lparr>support_resistance := calculate_support_resistance bars\<rparr>))\<rparr>))
   \<and> (length bars < 50 \<longrightarrow> comprehensive_analysis indicators (Some bars) = None)
   \<and> comprehensive_analysis indicators None = None
   \<and> (bars \<noteq> [] \<and> 0 < bar_close (last bars) \<and>
       filter (\<lambda>r. r > bar_close (last bars))
         (resistances (map bar_high (drop (length bars - 50) bars))) = [] \<longrightarrow>
        resistance_distance (calculate_support_resistance bars) = Some 5)
   \<and> (bars \<noteq> [] \<and> 0 < bar_close (last bars) \<and>
       filter (\<lambda>s. s < bar_close (last bars))
         (supports (map bar_low (drop (length bars - 50) bars))) = [] \<longrightarrow>
        support_distance (calculate_support_resistance bars) = Some (100 / 19))"
proof -
  have "extract_features now None = replicate 20 0" by (simp add: extract_features_def)
  then show ?thesis
    using extract_features_length [of now tech] extract_features_vector [of now ta]
      comprehensive_analysis_window(1) [of indicators]
      comprehensive_analysis_window(2,3) [of bars indicators]
      no_resistance_distance [of bars] no_support_distance [of bars]
    by simp
qed

text \<open>
  Witness for C9: the fifty rising bars give an analysis, whatever the other
  indicators are, with the default distances and a vector of length 20; their first
  forty-nine give \<^verbatim>\<open>None\<close>.
\<close>

theorem feature_vector_length_witness:
  "50 \<le> length rally_bars
   \<and> rally_bars \<noteq> []
   \<and> 0 < bar_close (last rally_bars)
   \<and> filter (\<lambda>r. r > bar_close (last rally_bars))
        (resistances (map bar_high (drop (length rally_bars - 50) rally_bars))) = []
   \<and> filter (\<lambda>s. s < bar_close (last rally_bars))
        (supports (map bar_low (drop (length rally_bars - 50) rally_bars))) = []
   \<and> calculate_support_resistance rally_bars =
       \<lparr>resistance_distance = Some 5, support_distance = Some (100 / 19)\<rparr>
   \<and> (\<forall>indicators.
        map_option (\<lambda>ta. length (extract_features midnight (Some ta)))
          (comprehensive_analysis indicators (Some rally_bars)) = Some 20)
   \<and> length (take 49 rally_bars) < 50
   \<and> (\<forall>indicators. comprehensive_analysis indicators (Some (take 49 rally_bars)) = None)"
proof -
  have w: "50 \<le> length rally_bars" "rally_bars \<noteq> []" "0 < bar_close (last rally_bars)"
    "filter (\<lambda>r. r > bar_close (last rally_bars))
        (resistances (map bar_high (drop (length rally_bars - 50) rally_bars))) = []"
    "filter (\<lambda>s. s < bar_close (last rally_bars))
        (supports (map bar_low (drop (length rally_bars - 50) rally_bars))) = []"
    "length (take 49 rally_bars) < 50"
    by (simp_all add: rally_bars_window)
  have "resistance_distance (calculate_support_resistance rally_bars) = Some 5"
    "support_distance (calculate_support_resistance rally_bars) = Some (100 / 19)"
    using feature_vector_length [where bars = rally_bars] w by blast+
  then have sr: "calculate_support_resistance rally_bars =
      \<lparr>resistance_distance = Some 5, support_distance = Some (100 / 19)\<rparr>"
    by (cases "calculate_support_resistance rally_bars") simp
  have a: "map_option (\<lambda>ta. length (extract_features midnight (Some ta)))
      (comprehensive_analysis indicators (Some rally_bars)) = Some 20" for indicators
    using feature_vector_length [where bars = rally_bars and indicators = indicators
        and now = midnight] w(1)
    by simp
  have n: "comprehensive_analysis indicators (Some (take 49 rally_bars)) = None" for indicators
    using feature_vector_length [where bars = "take 49 rally_bars" and indicators = indicators] w(6)
    by blast
  from w sr a n show ?thesis by simp
qed

text \<open>
  The flag \<^verbatim>\<open>is_trained\<close> is \<open>False\<close> in the initial state, and a call of
  \<^verbatim>\<open>train_models\<close> sets it exactly when it returns \<^verbatim>\<open>True\<close>: a prediction is made before
  any successful training exactly when the flag is \<open>False\<close>.
\<close>

lemma init_ml_system_untrained: "\<not> is_trained init_ml_system"
  by (simp add: init_ml_system_def)

lemma train_models_flag:
  "is_trained (snd (train_models sk data ml)) = (fst (train_models sk data ml) \<or> is_trained ml)"
  by (simp add: train_models_def split: option.splits)

lemma advanced_prediction_flag:
  "is_trained (snd (advanced_prediction rc now tech ml)) = is_trained ml"
  by (auto simp: advanced_prediction_def Let_def split: option.splits)

lemma incremental_retrain_flag:
  assumes "is_trained (incremental_retrain sk now db ml)"
  shows "is_trained ml \<or> (\<exists>data. fst (train_models sk data ml))"
proof (cases "collect_training_data now db")
  case None
  with assms show ?thesis by (simp add: incremental_retrain_def)
next
  case (Some data)
  obtain ok ml1 where t: "train_models sk data ml = (ok, ml1)" by (cases "train_models sk data ml")
  with train_models_flag [of sk data ml] have f: "is_trained ml1 = (ok \<or> is_trained ml)" by simp
  show ?thesis
  proof (cases ok)
    case True
    with t have "fst (train_models sk data ml)" by simp
    then show ?thesis by blast
  next
    case False
    with assms Some t f show ?thesis by (simp add: incremental_retrain_def split: if_splits)
  qed
qed

lemma basic_prediction_shape:
  "(model_details (basic_prediction rc tech) = Method_details ''Technical Analysis Fallback''
      \<or> model_details (basic_prediction rc tech) = Method_details ''Random Fallback'')
   \<and> 0.5 \<le> confidence (basic_prediction rc tech)
   \<and> confidence (basic_prediction rc tech) \<le> 0.8
   \<and> up (probability (basic_prediction rc tech)) + down (probability (basic_prediction rc tech)) = 1
   \<and> length (reasoning (basic_prediction rc tech)) \<le> 5"
  by (cases tech) (auto simp: basic_prediction_def Let_def)

lemma basic_prediction_direction:
  "rc = ''UP'' \<or> rc = ''DOWN'' \<Longrightarrow>
   prediction (basic_prediction rc tech) = ''UP'' \<or> prediction (basic_prediction rc tech) = ''DOWN''"
  by (cases tech) (auto simp: basic_prediction_def Let_def)

text \<open>
  Claim C8: a prediction asked of a system that no training has succeeded on raises
  nothing and writes nothing; it returns the prediction of \<^verbatim>\<open>basic_prediction\<close>, which
  has the keys of an ensemble prediction (a direction \<^verbatim>\<open>UP\<close> or \<^verbatim>\<open>DOWN\<close>, two
  probabilities that sum to 1, a confidence, here between 0.5 and 0.8, at most five
  reasons, and model details) and whose model details name a fallback method.
\<close>

theorem predict_before_train_falls_back:
  assumes "\<not> is_trained ml" and "rc = ''UP'' \<or> rc = ''DOWN''"
  shows "advanced_prediction rc now tech ml = (basic_prediction rc tech, ml)
   \<and> (model_details (basic_prediction rc tech) = Method_details ''Technical Analysis Fallback''
      \<or> model_details (basic_prediction rc tech) = Method_details ''Random Fallback'')
   \<and> (prediction (basic_prediction rc tech) = ''UP'' \<or> prediction (basic_prediction rc tech) = ''DOWN'')
   \<and> up (probability (basic_prediction rc tech)) + down (probability (basic_prediction rc tech)) = 1
   \<and> 0.5 \<le> confidence (basic_prediction rc tech)
   \<and> confidence (basic_prediction rc tech) \<le> 0.8
   \<and> length (reasoning (basic_prediction rc tech)) \<le> 5"
  using assms basic_prediction_shape [of rc tech] basic_prediction_direction [of rc tech]
  by (simp add: advanced_prediction_def)

text \<open>Witness for C8: the initial system on the empty analysis.\<close>

theorem predict_before_train_falls_back_witness:
  "\<not> is_trained init_ml_system
   \<and> advanced_prediction ''UP'' midnight (Some empty_analysis) init_ml_system =
       (basic_prediction ''UP'' (Some empty_analysis), init_ml_system)
   \<and> model_details (basic_prediction ''UP'' (Some empty_analysis)) =
       Method_details ''Technical Analysis Fallback''
   \<and> prediction (basic_prediction ''UP'' (Some empty_analysis)) = ''DOWN''
   \<and> confidence (basic_prediction ''UP'' (Some empty_analysis)) = 0.5"
  using predict_before_train_falls_back [of init_ml_system "''UP''" midnight "Some empty_analysis"]
  by (simp add: init_ml_system_def basic_prediction_def empty_analysis_def)

lemma train_models_stats:
  "labeled_predictions (prediction_stats (snd (train_models sk data ml))) = labeled_predictions (prediction_stats ml)
   \<and> correct_predictions (prediction_stats (snd (train_models sk data ml))) = correct_predictions (prediction_stats ml)"
  by (simp add: train_models_def split: option.splits)

lemma incremental_retrain_stats:
  "labeled_predictions (prediction_stats (incremental_retrain sk now db ml)) = labeled_predictions (prediction_stats ml)
   \<and> correct_predictions (prediction_stats (incremental_retrain sk now db ml)) = correct_predictions (prediction_stats ml)"
proof (cases "collect_training_data now db")
  case None
  then show ?thesis by (simp add: incremental_retrain_def)
next
  case (Some data)
  obtain ok ml1 where t: "train_models sk data ml = (ok, ml1)" by (cases "train_models sk data ml")
  with train_models_stats [of sk data ml]
  have "labeled_predictions (prediction_stats ml1) = labeled_predictions (prediction_stats ml)
      \<and> correct_predictions (prediction_stats ml1) = correct_predictions (prediction_stats ml)"
    by simp
  with Some t show ?thesis by (cases ok) (simp_all add: incremental_retrain_def)
qed

text \<open>
  Claim C10: with a non-empty prediction history, \<^verbatim>\<open>learn_from_result\<close> does the same
  for every \<^verbatim>\<open>simulation_id\<close>, and pairs the label with the last entry of the history:
  one more labelled prediction, one more correct prediction exactly when the last
  entry's direction agrees with the label, and (while the queue stays below the
  retraining threshold) a queue entry made of the last entry's analysis and the label.
\<close>

theorem learn_from_result_labels_latest:
  assumes "prediction_history ml \<noteq> []"
  shows "learn_from_result sk now db simulation_id actual ml = learn_from_result sk now db other_id actual ml
   \<and> labeled_predictions (prediction_stats (learn_from_result sk now db simulation_id actual ml)) =
       labeled_predictions (prediction_stats ml) + 1
   \<and> correct_predictions (prediction_stats (learn_from_result sk now db simulation_id actual ml)) =
       correct_predictions (prediction_stats ml) +
       (if (prediction (hist_prediction (last (prediction_history ml))) = ''UP'' \<and> actual) \<or>
           (prediction (hist_prediction (last (prediction_history ml))) = ''DOWN'' \<and> \<not> actual)
        then 1 else 0)
   \<and> (length (learning_queue ml) < 49 \<longrightarrow>
        learning_queue (learn_from_result sk now db simulation_id actual ml) =
          learning_queue ml @
          [\<lparr>lq_features = extract_features now (hist_technical_analysis (last (prediction_history ml))),
            lq_label = (if actual then 1 else 0),
            lq_timestamp = dt_seconds now\<rparr>])"
proof -
  obtain e es where rev: "rev (prediction_history ml) = e # es"
    using assms by (cases "rev (prediction_history ml)") auto
  then have "prediction_history ml = rev es @ [e]" by (simp add: rev_swap)
  then have last: "last (prediction_history ml) = e" by simp
  have 1: "learn_from_result sk now db simulation_id actual ml = learn_from_result sk now db other_id actual ml"
    by (simp add: learn_from_result_def)
  show ?thesis
    using rev last incremental_retrain_stats
    by (simp add: learn_from_result_def Let_def deque_append_def)
qed

text \<open>
  Witness for C10: the history holds \<^verbatim>\<open>UP\<close> then \<^verbatim>\<open>DOWN\<close>; a successful outcome is
  counted against the later \<^verbatim>\<open>DOWN\<close>, so it is labelled and not correct.
\<close>

theorem learn_from_result_labels_latest_witness:
  "prediction_history history_up_then_down \<noteq> []
   \<and> prediction (hist_prediction (last (prediction_history history_up_then_down))) = ''DOWN''
   \<and> labeled_predictions (prediction_stats
        (learn_from_result no_sklearn midnight [] ''sim-1'' True history_up_then_down)) = 1
   \<and> correct_predictions (prediction_stats
        (learn_from_result no_sklearn midnight [] ''sim-1'' True history_up_then_down)) = 0
   \<and> map lq_label (learning_queue
        (learn_from_result no_sklearn midnight [] ''sim-1'' True history_up_then_down)) = [1]"
proof -
  have h: "prediction_history history_up_then_down \<noteq> []"
    and l: "prediction (hist_prediction (last (prediction_history history_up_then_down))) = ''DOWN''"
    and q: "learning_queue history_up_then_down = []"
    and s: "labeled_predictions (prediction_stats history_up_then_down) = 0"
       "correct_predictions (prediction_stats history_up_then_down) = 0"
    by (simp_all add: history_up_then_down_def init_ml_system_def)
  from learn_from_result_labels_latest [OF h, of no_sklearn midnight "[]" "''sim-1''" True "''sim-1''"] h l q s
  show ?thesis by simp
qed

section \<open>Properties of the simulation lifecycle\<close>

lemma contains_REAL: "contains ''REAL'' ''ML_REAL_BINANCE_DATA''"
  by simp

lemma select_one_open:
  "select_for_close (env_now (close_env r)) one_open_engine = Some (False, confident_open_sim)"
  by (simp add: select_for_close_def one_open_engine_def confident_open_sim_def close_env_def)

lemma close_update_success:
  "upd_success (close_update current_price random_value sim) =
     Some ((contains ''REAL'' (entry_method sim) \<and> sim_confidence sim > 0.8 \<and> random_value < 0.15)
           \<or> (if trend sim = ''UP''
               then (current_price - entry_price sim) / entry_price sim * 100 > 0.1
               else (current_price - entry_price sim) / entry_price sim * 100 < - 0.1))"
  unfolding close_update_def Let_def by auto

lemma close_tables:
  assumes "select_for_close (env_now env) eng = Some (old, sim)"
    and "env_price env = Some price" and "entry_price sim \<noteq> 0"
  shows "fst (close_real_simulation env eng) = Some (sim_id sim)"
    and "simulations (snd (close_real_simulation env eng)) =
      (if old then update_one (sim_id sim) (close_update price (env_random env) sim) (simulations eng)
       else simulations eng)"
    and "enhanced_simulations (snd (close_real_simulation env eng)) =
      (if old then enhanced_simulations eng
       else update_one (sim_id sim) (close_update price (env_random env) sim) (enhanced_simulations eng))"
  using assms
  by (simp_all add: close_real_simulation_def Let_def split: option.splits)

lemma close_real_simulation_unselected:
  assumes "select_for_close (env_now env) eng = None \<or> env_price env = None"
  shows "close_real_simulation env eng = (None, eng)"
  using assms by (auto simp: close_real_simulation_def split: option.splits)

lemma max_timestamp_in: "max_timestamp best xs \<in> set (best # xs)"
  by (induction xs arbitrary: best) auto

lemma select_for_close_sound:
  assumes "select_for_close now eng = Some (old, sim)"
  shows "\<not> closed sim \<and> sim \<in> set (if old then simulations eng else enhanced_simulations eng)"
proof -
  let ?open = "if filter (\<lambda>s. \<not> closed s) (enhanced_simulations eng) = []
               then filter (\<lambda>s. \<not> closed s) (simulations eng)
               else filter (\<lambda>s. \<not> closed s) (enhanced_simulations eng)"
  let ?el = "filter (\<lambda>s. dt_seconds now - sim_timestamp s > 120) ?open"
  from assms obtain first others where el: "?el = first # others"
    and old: "old = (filter (\<lambda>s. \<not> closed s) (enhanced_simulations eng) = [])"
    and sim: "sim = max_timestamp first others"
    by (auto simp: select_for_close_def Let_def split: list.splits)
  have "sim \<in> set ?el" using max_timestamp_in [of first others] el sim by simp
  then have "sim \<in> set ?open" by simp
  then show ?thesis using old by (auto split: if_splits)
qed

lemma update_one_length: "length (update_one i u ds) = length ds"
  by (induction ds) auto

lemma update_one_other:
  "k < length ds \<Longrightarrow> sim_id (ds ! k) \<noteq> i \<Longrightarrow> update_one i u ds ! k = ds ! k"
proof (induction ds arbitrary: k)
  case Nil
  then show ?case by simp
next
  case (Cons d ds)
  then show ?case by (cases k) auto
qed

lemma update_one_keeps_closed:
  assumes "distinct (map sim_id ds)" and "sim \<in> set ds" and "\<not> closed sim"
    and "k < length ds" and "closed (ds ! k)"
  shows "update_one (sim_id sim) u ds ! k = ds ! k"
proof -
  have "ds ! k \<in> set ds" using assms(4) by simp
  moreover have "ds ! k \<noteq> sim" using assms(3,5) by auto
  moreover have "inj_on sim_id (set ds)" using assms(1) by (simp add: distinct_map)
  ultimately have "sim_id (ds ! k) \<noteq> sim_id sim" using assms(2) by (auto dest: inj_onD)
  then show ?thesis using assms(4) by (rule update_one_other [rotated])
qed

lemma close_keeps_closed:
  assumes "distinct (map sim_id (enhanced_simulations eng))"
    and "distinct (map sim_id (simulations eng))"
  shows "length (enhanced_simulations (snd (close_real_simulation env eng))) = length (enhanced_simulations eng)"
    and "length (simulations (snd (close_real_simulation env eng))) = length (simulations eng)"
    and "k < length (enhanced_simulations eng) \<Longrightarrow> closed (enhanced_simulations eng ! k) \<Longrightarrow>
         enhanced_simulations (snd (close_real_simulation env eng)) ! k = enhanced_simulations eng ! k"
    and "k < length (simulations eng) \<Longrightarrow> closed (simulations eng ! k) \<Longrightarrow>
         simulations (snd (close_real_simulation env eng)) ! k = simulations eng ! k"
proof -
  have "length (enhanced_simulations (snd (close_real_simulation env eng))) = length (enhanced_simulations eng)
    \<and> length (simulations (snd (close_real_simulation env eng))) = length (simulations eng)
    \<and> (k < length (enhanced_simulations eng) \<longrightarrow> closed (enhanced_simulations eng ! k) \<longrightarrow>
         enhanced_simulations (snd (close_real_simulation env eng)) ! k = enhanced_simulations eng ! k)
    \<and> (k < length (simulations eng) \<longrightarrow> closed (simulations eng ! k) \<longrightarrow>
         simulations (snd (close_real_simulation env eng)) ! k = simulations eng ! k)"
  proof (cases "select_for_close (env_now env) eng")
    case None
    then show ?thesis by (simp add: close_real_simulation_unselected)
  next
    case (Some selected)
    obtain old sim where sel: "select_for_close (env_now env) eng = Some (old, sim)"
      using Some by (cases selected) simp
    note sound = select_for_close_sound [OF sel]
    show ?thesis
    proof (cases "env_price env")
      case None
      then show ?thesis by (simp add: close_real_simulation_unselected)
    next
      case (Some price)
      show ?thesis
      proof (cases "entry_price sim = 0")
        case True
        with sel Some show ?thesis by (simp add: close_real_simulation_def)
      next
        case nonzero: False
        show ?thesis
        proof (cases old)
          case True
          with sound have "sim \<in> set (simulations eng)" "\<not> closed sim" by simp_all
          with assms(2) have "k < length (simulations eng) \<Longrightarrow> closed (simulations eng ! k) \<Longrightarrow>
              update_one (sim_id sim) u (simulations eng) ! k = simulations eng ! k" for u
            by (rule update_one_keeps_closed)
          then show ?thesis using True close_tables(2,3) [OF sel Some nonzero]
            by (simp add: update_one_length)
        next
          case False
          with sound have "sim \<in> set (enhanced_simulations eng)" "\<not> closed sim" by simp_all
          with assms(1) have "k < length (enhanced_simulations eng) \<Longrightarrow> closed (enhanced_simulations eng ! k) \<Longrightarrow>
              update_one (sim_id sim) u (enhanced_simulations eng) ! k = enhanced_simulations eng ! k" for u
            by (rule update_one_keeps_closed)
          then show ?thesis using False close_tables(2,3) [OF sel Some nonzero]
            by (simp add: update_one_length)
        qed
      qed
    qed
  qed
  then show "length (enhanced_simulations (snd (close_real_simulation env eng))) = length (enhanced_simulations eng)"
    and "length (simulations (snd (close_real_simulation env eng))) = length (simulations eng)"
    and "k < length (enhanced_simulations eng) \<Longrightarrow> closed (enhanced_simulations eng ! k) \<Longrightarrow>
         enhanced_simulations (snd (close_real_simulation env eng)) ! k = enhanced_simulations eng ! k"
    and "k < length (simulations eng) \<Longrightarrow> closed (simulations eng ! k) \<Longrightarrow>
         simulations (snd (close_real_simulation env eng)) ! k = simulations eng ! k"
    by simp_all
qed

lemma update_simulation_matched:
  assumes "matched_count i (enhanced_simulations eng) \<noteq> 0"
  shows "\<exists>e. update_simulation env i u eng = Inr e
            \<and> enhanced_simulations e = update_one i u (enhanced_simulations eng)"
  using assms by (simp add: update_simulation_def Let_def split: option.splits)

text \<open>
  Claim C1, as the specification states it: the success label is a function of entry
  price, exit price and trend. It fails on two closes of the same open simulation
  (\<^verbatim>\<open>UP\<close>, entry 100, confidence 0.9, an entry method containing \<^verbatim>\<open>REAL\<close>) at the same
  exit price 100: with \<^verbatim>\<open>random.random()\<close> = 0.1 the label is \<open>True\<close> although the
  price has not moved, with 0.5 it is \<open>False\<close>.
\<close>

theorem close_success_counterexample:
  "entry_price confident_open_sim = 100
   \<and> trend confident_open_sim = ''UP''
   \<and> env_price (close_env 0.1) = Some 100
   \<and> env_price (close_env 0.5) = Some 100
   \<and> map success (enhanced_simulations (snd (close_real_simulation (close_env 0.1) one_open_engine))) = [Some True]
   \<and> map success (enhanced_simulations (snd (close_real_simulation (close_env 0.5) one_open_engine))) = [Some False]"
proof -
  have p: "env_price (close_env r) = Some 100" and rr: "env_random (close_env r) = r" for r
    by (simp_all add: close_env_def)
  have e: "entry_price confident_open_sim \<noteq> 0" by (simp add: confident_open_sim_def)
  have "enhanced_simulations (snd (close_real_simulation (close_env r) one_open_engine)) =
      [apply_set (close_update 100 r confident_open_sim) confident_open_sim]" for r
    using close_tables(3) [OF select_one_open p e, of r]
    by (simp add: rr one_open_engine_def)
  then show ?thesis
    by (simp add: apply_set_def close_update_success confident_open_sim_def p)
qed

text \<open>
  Claim C1, amended: when \<^verbatim>\<open>close_real_simulation\<close> closes a simulation (one is
  selected, a price is available, the entry price is not 0), the selected simulation
  was open, the update is written to its collection under its id, and the success
  label is \<open>True\<close> exactly when the price rule holds (a change above 0.1 percent for
  \<^verbatim>\<open>UP\<close>, below \<open>-0.1\<close> percent otherwise) or the bonus applies (the entry method
  contains \<^verbatim>\<open>REAL\<close>, the stored confidence is above 0.8 and \<^verbatim>\<open>random.random()\<close> is
  below 0.15).
\<close>

theorem close_success_label:
  assumes "select_for_close (env_now env) eng = Some (old, sim)"
    and "env_price env = Some price" and "entry_price sim \<noteq> 0"
  shows "fst (close_real_simulation env eng) = Some (sim_id sim)
   \<and> \<not> closed sim
   \<and> sim \<in> set (if old then simulations eng else enhanced_simulations eng)
   \<and> simulations (snd (close_real_simulation env eng)) =
       (if old then update_one (sim_id sim) (close_update price (env_random env) sim) (simulations eng)
        else simulations eng)
   \<and> enhanced_simulations (snd (close_real_simulation env eng)) =
       (if old then enhanced_simulations eng
        else update_one (sim_id sim) (close_update price (env_random env) sim) (enhanced_simulations eng))
   \<and> upd_success (close_update price (env_random env) sim) =
       Some ((contains ''REAL'' (entry_method sim) \<and> sim_confidence sim > 0.8 \<and> env_random env < 0.15)
             \<or> (if trend sim = ''UP''
                 then (price - entry_price sim) / entry_price sim * 100 > 0.1
                 else (price - entry_price sim) / entry_price sim * 100 < - 0.1))"
  using close_tables [OF assms] select_for_close_sound [OF assms(1)] close_update_success
  by simp

text \<open>Witness for C1: the close of the open simulation with the random value 0.5.\<close>

theorem close_success_label_witness:
  "select_for_close (env_now (close_env 0.5)) one_open_engine = Some (False, confident_open_sim)
   \<and> env_price (close_env 0.5) = Some 100
   \<and> entry_price confident_open_sim \<noteq> 0
   \<and> fst (close_real_simulation (close_env 0.5) one_open_engine) = Some ''sim-2''
   \<and> upd_success (close_update 100 0.5 confident_open_sim) = Some False"
proof -
  have p: "env_price (close_env 0.5) = Some 100" by (simp add: close_env_def)
  have e: "entry_price confident_open_sim \<noteq> 0" by (simp add: confident_open_sim_def)
  have r: "env_random (close_env 0.5) = 0.5" by (simp add: close_env_def)
  from close_success_label [OF select_one_open p e] select_one_open p e
  show ?thesis unfolding r by (simp add: confident_open_sim_def)
qed

text \<open>
  Claim C2, as the specification states it: a second close of a closed simulation,
  through any caller, fails and leaves the outcome unchanged. It fails on the manual
  update path: a \<^verbatim>\<open>PUT\<close> on the closed simulation \<^verbatim>\<open>sim-1\<close> succeeds and rewrites its
  exit price, result and success label.
\<close>

theorem update_rewrites_closed_simulation:
  "closed overbought_failure
   \<and> enhanced_simulations closed_engine = [overbought_failure]
   \<and> update_simulation (close_env 0.5) ''sim-1'' reclose_update closed_engine =
       Inr (closed_engine\<lparr>enhanced_simulations :=
              [overbought_failure\<lparr>exit_price := Some 120, result_pct := Some 20, success := Some True\<rparr>]\<rparr>)
   \<and> exit_price overbought_failure = Some 99
   \<and> result_pct overbought_failure = Some (- 1)
   \<and> success overbought_failure = Some False"
  by (simp add: update_simulation_def closed_engine_def reclose_update_def overbought_failure_def
      matched_count_def apply_set_def)

text \<open>
  Claim C2, amended: with ids unique in each collection, \<^verbatim>\<open>close_real_simulation\<close>
  leaves every closed document as it is (it selects among the open documents only),
  so it never closes a simulation twice, and it raises nothing; \<^verbatim>\<open>update_simulation\<close>
  applies its update to the first document with the given id whatever its \<^verbatim>\<open>closed\<close>
  flag, and succeeds.
\<close>

theorem closed_simulations_untouched_by_close:
  assumes "distinct (map sim_id (enhanced_simulations eng))"
    and "distinct (map sim_id (simulations eng))"
  shows "length (enhanced_simulations (snd (close_real_simulation env eng))) = length (enhanced_simulations eng)
   \<and> length (simulations (snd (close_real_simulation env eng))) = length (simulations eng)
   \<and> (\<forall>k. k < length (enhanced_simulations eng) \<and> closed (enhanced_simulations eng ! k) \<longrightarrow>
        enhanced_simulations (snd (close_real_simulation env eng)) ! k = enhanced_simulations eng ! k)
   \<and> (\<forall>k. k < length (simulations eng) \<and> closed (simulations eng ! k) \<longrightarrow>
        simulations (snd (close_real_simulation env eng)) ! k = simulations eng ! k)
   \<and> (matched_count i (enhanced_simulations eng) \<noteq> 0 \<longrightarrow>
        (\<exists>e. update_simulation env' i u eng = Inr e
            \<and> enhanced_simulations e = update_one i u (enhanced_simulations eng)))"
  using close_keeps_closed [OF assms] update_simulation_matched by blast

text \<open>
  Witness for C2: a closed and an open simulation; the close leaves the closed one
  untouched, the manual update matches it.
\<close>

theorem closed_simulations_untouched_witness:
  "distinct (map sim_id (enhanced_simulations mixed_engine))
   \<and> distinct (map sim_id (simulations mixed_engine))
   \<and> closed (enhanced_simulations mixed_engine ! 0)
   \<and> enhanced_simulations (snd (close_real_simulation (close_env 0.5) mixed_engine)) ! 0 = overbought_failure
   \<and> matched_count ''sim-1'' (enhanced_simulations mixed_engine) \<noteq> 0
   \<and> (\<exists>e. update_simulation (close_env 0.5) ''sim-1'' reclose_update mixed_engine = Inr e
          \<and> enhanced_simulations e = update_one ''sim-1'' reclose_update (enhanced_simulations mixed_engine))"
proof -
  have d1: "distinct (map sim_id (enhanced_simulations mixed_engine))"
    and d2: "distinct (map sim_id (simulations mixed_engine))"
    by (simp_all add: mixed_engine_def overbought_failure_def confident_open_sim_def)
  have c: "closed (enhanced_simulations mixed_engine ! 0)"
    and l: "0 < length (enhanced_simulations mixed_engine)"
    and z: "enhanced_simulations mixed_engine ! 0 = overbought_failure"
    and m: "matched_count ''sim-1'' (enhanced_simulations mixed_engine) \<noteq> 0"
    by (simp_all add: mixed_engine_def overbought_failure_def matched_count_def)
  from closed_simulations_untouched_by_close [OF d1 d2, of "close_env 0.5" "''sim-1''" "close_env 0.5" reclose_update]
    d1 d2 c l z m
  show ?thesis by simp
qed

text \<open>
  The confidence that \<^verbatim>\<open>generate_real_simulation\<close> computes, from the confidence before
  the correction and the learner's correction factor.
\<close>

lemma generate_signals_confidence_range:
  "0.5 \<le> sig_confidence (generate_signals a) \<and> sig_confidence (generate_signals a) \<le> 0.95"
  by (cases "scored a") (simp add: generate_signals_def)

lemma basic_prediction_confidence:
  "0.5 \<le> confidence (basic_prediction rc tech) \<and> confidence (basic_prediction rc tech) \<le> 0.8"
  by (cases tech) (auto simp: basic_prediction_def Let_def)

lemma basic_prediction_details:
  "\<exists>method. model_details (basic_prediction rc tech) = Method_details method"
  by (cases tech) (auto simp: basic_prediction_def Let_def)

lemma clamp_range: "(0.5::real) \<le> max 0.5 (min 0.95 x) \<and> max 0.5 (min 0.95 x) \<le> 0.95"
  by (simp add: max_def min_def)

lemma calculate_adjusted_confidence_range:
  "0.5 \<le> calculate_adjusted_confidence up_p down_p ta \<and> calculate_adjusted_confidence up_p down_p ta \<le> 0.95"
  unfolding calculate_adjusted_confidence_def Let_def by (rule clamp_range)

text \<open>The greatest entry of a row of probabilities over one or two classes.\<close>

lemma probability_row_max:
  assumes "probability_row r"
  shows "0.5 \<le> array_max r \<and> array_max r \<le> 1"
proof -
  from assms consider a where "r = [a]" | a b where "r = [a, b]"
    by (cases r; cases "tl r"; cases "tl (tl r)") (auto simp: probability_row_def)
  then show ?thesis
  proof cases
    case 1
    with assms show ?thesis by (simp add: probability_row_def array_max_def)
  next
    case 2
    with assms show ?thesis by (auto simp: probability_row_def array_max_def max_def)
  qed
qed

text \<open>
  The prediction of \<^verbatim>\<open>advanced_prediction\<close> is either a fallback, with a confidence
  between 0.5 and 0.8, or an ensemble prediction, whose confidence is the greatest
  probability of the ensemble's row, times 1.1 and capped at 0.95 when the two
  models' consensus is strong.
\<close>

lemma advanced_prediction_cases:
  "(fst (advanced_prediction rc now tech ml) = basic_prediction rc tech)
   \<or> (\<exists>m ta x. models ml = Some m \<and> tech = Some ta
        \<and> confidence (fst (advanced_prediction rc now tech ml)) =
            (if \<bar>(real_of_int (predict (random_forest m) x) +
                   real_of_int (predict (gradient_boost m) x)) / 2 - 0.5\<bar> > 0.2
             then min (array_max (predict_proba (ensemble m) x) * 1.1) 0.95
             else array_max (predict_proba (ensemble m) x))
        \<and> model_details (fst (advanced_prediction rc now tech ml)) =
            Ensemble_details ''Voting Classifier''
              [(''random_forest'',
                \<lparr>ind_prediction = predict (random_forest m) x,
                 ind_probability = array_max (predict_proba (random_forest m) x)\<rparr>),
               (''gradient_boost'',
                \<lparr>ind_prediction = predict (gradient_boost m) x,
                 ind_probability = array_max (predict_proba (gradient_boost m) x)\<rparr>)]
              ((real_of_int (predict (random_forest m) x) +
                real_of_int (predict (gradient_boost m) x)) / 2)
              (length (feature_names ml)))"
proof (cases "\<not> is_trained ml \<or> models ml = None")
  case True
  then show ?thesis by (auto simp: advanced_prediction_def)
next
  case False
  then obtain m where m: "models ml = Some m" and t: "is_trained ml" by auto
  show ?thesis
  proof (cases tech)
    case None
    with m t show ?thesis by (simp add: advanced_prediction_def)
  next
    case (Some ta)
    let ?x = "case scalers ml of Some transform \<Rightarrow> transform (extract_features now (Some ta))
              | None \<Rightarrow> extract_features now (Some ta)"
    show ?thesis
    proof (cases "predict_proba (random_forest m) ?x = [] \<or> predict_proba (gradient_boost m) ?x = []
        \<or> predict_proba (ensemble m) ?x = []")
      case True
      with m t have "fst (advanced_prediction rc now (Some ta) ml) = basic_prediction rc (Some ta)"
        by (simp add: advanced_prediction_def Let_def)
      then show ?thesis unfolding Some by blast
    next
      case False
      with m t have "confidence (fst (advanced_prediction rc now (Some ta) ml)) =
            (if \<bar>(real_of_int (predict (random_forest m) ?x) +
                   real_of_int (predict (gradient_boost m) ?x)) / 2 - 0.5\<bar> > 0.2
             then min (array_max (predict_proba (ensemble m) ?x) * 1.1) 0.95
             else array_max (predict_proba (ensemble m) ?x))
        \<and> model_details (fst (advanced_prediction rc now (Some ta) ml)) =
            Ensemble_details ''Voting Classifier''
              [(''random_forest'',
                \<lparr>ind_prediction = predict (random_forest m) ?x,
                 ind_probability = array_max (predict_proba (random_forest m) ?x)\<rparr>),
               (''gradient_boost'',
                \<lparr>ind_prediction = predict (gradient_boost m) ?x,
                 ind_probability = array_max (predict_proba (gradient_boost m) ?x)\<rparr>)]
              ((real_of_int (predict (random_forest m) ?x) +
                real_of_int (predict (gradient_boost m) ?x)) / 2)
              (length (feature_names ml))"
        by (simp add: advanced_prediction_def Let_def)
      with m show ?thesis unfolding Some by blast
    qed
  qed
qed

lemma advanced_prediction_confidence:
  assumes "\<forall>m x. models ml = Some m \<longrightarrow> probability_row (predict_proba (ensemble m) x)"
  shows "0.5 \<le> confidence (fst (advanced_prediction rc now tech ml))
   \<and> confidence (fst (advanced_prediction rc now tech ml)) \<le> 1
   \<and> ((case model_details (fst (advanced_prediction rc now tech ml)) of
          Ensemble_details ensemble_method individual_models consensus_score feature_count \<Rightarrow>
            \<bar>consensus_score - 0.5\<bar> > 0.2
        | Method_details method \<Rightarrow> True) \<longrightarrow>
       confidence (fst (advanced_prediction rc now tech ml)) \<le> 0.95)"
proof -
  let ?p = "fst (advanced_prediction rc now tech ml)"
  from advanced_prediction_cases [of rc now tech ml]
  show ?thesis
  proof (elim disjE exE conjE)
    assume "?p = basic_prediction rc tech"
    with basic_prediction_confidence [of rc tech] show ?thesis by simp
  next
    fix m ta x
    assume m: "models ml = Some m"
      and c: "confidence ?p =
        (if \<bar>(real_of_int (predict (random_forest m) x) +
               real_of_int (predict (gradient_boost m) x)) / 2 - 0.5\<bar> > 0.2
         then min (array_max (predict_proba (ensemble m) x) * 1.1) 0.95
         else array_max (predict_proba (ensemble m) x))"
      and d: "model_details ?p =
        Ensemble_details ''Voting Classifier''
          [(''random_forest'',
            \<lparr>ind_prediction = predict (random_forest m) x,
             ind_probability = array_max (predict_proba (random_forest m) x)\<rparr>),
           (''gradient_boost'',
            \<lparr>ind_prediction = predict (gradient_boost m) x,
             ind_probability = array_max (predict_proba (gradient_boost m) x)\<rparr>)]
          ((real_of_int (predict (random_forest m) x) +
            real_of_int (predict (gradient_boost m) x)) / 2)
          (length (feature_names ml))"
    from assms m have "probability_row (predict_proba (ensemble m) x)" by blast
    from probability_row_max [OF this]
    have r: "0.5 \<le> array_max (predict_proba (ensemble m) x)"
      "array_max (predict_proba (ensemble m) x) \<le> 1" by simp_all
    show ?thesis unfolding c d using r by (simp add: min_def)
  qed
qed

text \<open>
  With soft voting a prediction without a strong consensus stays below 0.95 as well:
  the two models disagree, so one gives class 1 at most 0.5 and the other gives class
  0 less than 0.5, and the greater of the two means is at most 0.75.
\<close>

lemma soft_voting_confidence:
  assumes "\<forall>m x. models ml = Some m \<longrightarrow> soft_voting m x"
  shows "confidence (fst (advanced_prediction rc now tech ml)) \<le> 0.95"
proof -
  let ?p = "fst (advanced_prediction rc now tech ml)"
  from advanced_prediction_cases [of rc now tech ml]
  show ?thesis
  proof (elim disjE exE conjE)
    assume "?p = basic_prediction rc tech"
    with basic_prediction_confidence [of rc tech] show ?thesis by simp
  next
    fix m ta x
    assume m: "models ml = Some m"
      and c: "confidence ?p =
        (if \<bar>(real_of_int (predict (random_forest m) x) +
               real_of_int (predict (gradient_boost m) x)) / 2 - 0.5\<bar> > 0.2
         then min (array_max (predict_proba (ensemble m) x) * 1.1) 0.95
         else array_max (predict_proba (ensemble m) x))"
    from assms m have sv: "soft_voting m x" by blast
    obtain r0 r1 where rf: "predict_proba (random_forest m) x = [r0, r1]"
      using sv by (cases "predict_proba (random_forest m) x";
        cases "tl (predict_proba (random_forest m) x)") (auto simp: soft_voting_def Let_def)
    obtain g0 g1 where gb: "predict_proba (gradient_boost m) x = [g0, g1]"
      using sv by (cases "predict_proba (gradient_boost m) x";
        cases "tl (predict_proba (gradient_boost m) x)") (auto simp: soft_voting_def Let_def)
    from sv rf gb have rows: "0 \<le> r0" "0 \<le> r1" "r0 + r1 = 1" "0 \<le> g0" "0 \<le> g1" "g0 + g1 = 1"
      and en: "predict_proba (ensemble m) x = [(r0 + g0) / 2, (r1 + g1) / 2]"
      and pr: "predict (random_forest m) x = (if r1 > r0 then 1 else 0)"
      and pg: "predict (gradient_boost m) x = (if g1 > g0 then 1 else 0)"
      by (simp_all add: soft_voting_def Let_def probability_row_def)
    have am: "array_max (predict_proba (ensemble m) x) = max ((r1 + g1) / 2) ((r0 + g0) / 2)"
      by (simp add: en array_max_def)
    show ?thesis
    proof (cases "(r1 > r0) = (g1 > g0)")
      case True
      then have "\<bar>(real_of_int (predict (random_forest m) x) +
          real_of_int (predict (gradient_boost m) x)) / 2 - 0.5\<bar> > 0.2"
        by (auto simp: pr pg)
      then show ?thesis unfolding c by simp
    next
      case False
      then have "\<not> \<bar>(real_of_int (predict (random_forest m) x) +
          real_of_int (predict (gradient_boost m) x)) / 2 - 0.5\<bar> > 0.2"
        by (auto simp: pr pg)
      then have "confidence ?p = max ((r1 + g1) / 2) ((r0 + g0) / 2)" unfolding c am by simp
      moreover have "max ((r1 + g1) / 2) ((r0 + g0) / 2) \<le> 0.75"
        using False rows by (auto simp: max_def)
      ultimately show ?thesis by simp
    qed
  qed
qed

lemma simulation_dict_fields:
  assumes "simulation_dict env eng ta = (Some sim, eng1)"
  shows "sim_confidence sim =
      (case error_learning_system eng of
         None \<Rightarrow> base_confidence_of env eng ta
       | Some els \<Rightarrow> max 0.1 (base_confidence_of env eng ta + get_correction_factor els ta (trend sim)))"
    and "ml_prediction sim =
      map_option (\<lambda>ml. fst (advanced_prediction (env_random_choice env) (env_now env) (Some ta) ml))
        (enhanced_ml_system eng)"
    and "technical_analysis sim = Some ta"
  using assms
  by (auto simp: simulation_dict_def base_confidence_of_def Let_def
      split: option.splits prod.splits)

lemma generate_real_simulation_insert:
  assumes "comprehensive_analysis (env_indicators env) (env_market_df env) = Some ta"
    and "simulation_dict env eng ta = (Some sim, eng1)"
  shows "generate_real_simulation env eng =
      (if bson_encodable sim
       then (Some sim, eng1\<lparr>enhanced_simulations := enhanced_simulations eng1 @ [sim]\<rparr>)
       else (None, eng1))"
  using assms by (simp add: generate_real_simulation_def)

lemma comprehensive_analysis_signals:
  assumes "comprehensive_analysis indicators df = Some ta"
  shows "\<exists>a. signals ta = Some (generate_signals a)"
  using assms by (auto simp: comprehensive_analysis_def Let_def split: option.splits if_splits)

lemma base_confidence_range:
  assumes "comprehensive_analysis (env_indicators env) (env_market_df env) = Some ta"
    and "\<forall>ml m x. enhanced_ml_system eng = Some ml \<and> models ml = Some m \<longrightarrow>
           probability_row (predict_proba (ensemble m) x)"
  shows "0.5 \<le> base_confidence_of env eng ta \<and> base_confidence_of env eng ta \<le> 1"
proof (cases "enhanced_ml_system eng")
  case None
  from comprehensive_analysis_signals [OF assms(1)]
  obtain a where "signals ta = Some (generate_signals a)" ..
  with None generate_signals_confidence_range [of a] show ?thesis
    by (simp add: base_confidence_of_def dict_get_def)
next
  case (Some ml)
  with assms(2) have "\<forall>m x. models ml = Some m \<longrightarrow> probability_row (predict_proba (ensemble m) x)"
    by blast
  from advanced_prediction_confidence [OF this, of "env_random_choice env" "env_now env" "Some ta"] Some
  show ?thesis by (simp add: base_confidence_of_def)
qed

lemma base_confidence_capped:
  assumes "comprehensive_analysis (env_indicators env) (env_market_df env) = Some ta"
    and "simulation_dict env eng ta = (Some sim, eng1)"
    and "\<forall>ml m x. enhanced_ml_system eng = Some ml \<and> models ml = Some m \<longrightarrow>
           probability_row (predict_proba (ensemble m) x)"
    and "case ml_prediction sim of
           None \<Rightarrow> True
         | Some p \<Rightarrow>
             (case model_details p of
                Ensemble_details ensemble_method individual_models consensus_score feature_count \<Rightarrow>
                  \<bar>consensus_score - 0.5\<bar> > 0.2
              | Method_details method \<Rightarrow> True)"
  shows "base_confidence_of env eng ta \<le> 0.95"
proof (cases "enhanced_ml_system eng")
  case None
  from comprehensive_analysis_signals [OF assms(1)]
  obtain a where "signals ta = Some (generate_signals a)" ..
  with None generate_signals_confidence_range [of a] show ?thesis
    by (simp add: base_confidence_of_def dict_get_def)
next
  case (Some ml)
  with assms(3) have "\<forall>m x. models ml = Some m \<longrightarrow> probability_row (predict_proba (ensemble m) x)"
    by blast
  from advanced_prediction_confidence [OF this, of "env_random_choice env" "env_now env" "Some ta"]
    assms(4) simulation_dict_fields(2) [OF assms(2)] Some
  show ?thesis by (simp add: base_confidence_of_def)
qed

lemma base_confidence_soft_voting:
  assumes "comprehensive_analysis (env_indicators env) (env_market_df env) = Some ta"
    and "\<forall>ml m x. enhanced_ml_system eng = Some ml \<and> models ml = Some m \<longrightarrow> soft_voting m x"
  shows "base_confidence_of env eng ta \<le> 0.95"
proof (cases "enhanced_ml_system eng")
  case None
  from comprehensive_analysis_signals [OF assms(1)]
  obtain a where "signals ta = Some (generate_signals a)" ..
  with None generate_signals_confidence_range [of a] show ?thesis
    by (simp add: base_confidence_of_def dict_get_def)
next
  case (Some ml)
  with assms(2) have "\<forall>m x. models ml = Some m \<longrightarrow> soft_voting m x" by blast
  from soft_voting_confidence [OF this, of "env_random_choice env" "env_now env" "Some ta"] Some
  show ?thesis by (simp add: base_confidence_of_def)
qed

text \<open>The two servers of the examples on the tick of the rally.\<close>

lemma six_failures_weights: "correction_weights six_failures = [''rsi_overbought'' \<mapsto> 0.8]"
  by (simp add: six_failures_def learner_run_def eval_nat_numeral analyze_overbought_failure
      init_error_learning_def dict_get_def)

lemma scored_overbought_rally:
  "scored overbought_rally =
     ([''MACD bullish crossover'', ''EMA 20 above EMA 50''], [''RSI overbought (>70)''], 15)"
  by (simp add: scored_def overbought_rally_def dict_get_def)

lemma correction_rally: "get_correction_factor six_failures rally_analysis ''UP'' = - 0.3"
  by (simp add: get_correction_factor_def six_failures_weights rally_analysis_def
      overbought_rally_def dict_get_def)

lemma comprehensive_analysis_rally:
  "comprehensive_analysis (env_indicators open_env) (env_market_df open_env) = Some rally_analysis"
proof -
  have "overbought_rally\<lparr>support_resistance := calculate_support_resistance rally_bars\<rparr> = overbought_rally"
    by (simp add: rally_bars_levels overbought_rally_def)
  then show ?thesis
    by (simp add: open_env_def comprehensive_analysis_window(3) rally_bars_window(1) rally_analysis_def)
qed

lemma simulation_dict_learned:
  "simulation_dict open_env learned_engine rally_analysis =
     (Some \<lparr>sim_id = ''sim-9'', sim_timestamp = 0, entry_price = 100, exit_price = None,
            trend = ''UP'', sim_probability = \<lparr>up = 0.75, down = 0.25\<rparr>, sim_confidence = 0.2,
            result_pct = None, success = None, closed = False,
            entry_method = ''ML_REAL_BINANCE_DATA'',
            technical_analysis = Some rally_analysis,
            ml_prediction = Some (basic_prediction ''UP'' (Some rally_analysis)),
            learning_feedback = None\<rparr>,
      learned_engine)"
proof -
  have b: "basic_prediction ''UP'' (Some rally_analysis) =
      \<lparr>prediction = ''UP'', confidence = 0.5, probability = \<lparr>up = 0.75, down = 0.25\<rparr>,
       reasoning = [''Analisis tecnico basico'', ''Fuerza de senal: '' @ show_int 15],
       model_details = Method_details ''Technical Analysis Fallback'', timestamp = None\<rparr>"
    by (simp add: basic_prediction_def rally_analysis_def generate_signals_def scored_overbought_rally)
  have a: "advanced_prediction ''UP'' midnight (Some rally_analysis) init_ml_system =
      (basic_prediction ''UP'' (Some rally_analysis), init_ml_system)"
    by (simp add: advanced_prediction_def init_ml_system_def)
  show ?thesis
    unfolding simulation_dict_def
    by (simp add: open_env_def learned_engine_def a b correction_rally) (simp add: midnight_def)
qed

lemma trained_ml_state:
  "snd (train_models fitted_sklearn [] init_ml_system) =
     init_ml_system
       \<lparr>scalers := Some (\<lambda>x. x), models := Some agreeing_models,
        feature_names := trained_feature_names, is_trained := True,
        prediction_stats := (prediction_stats init_ml_system)\<lparr>model_updates := 1\<rparr>\<rparr>"
  by (simp add: train_models_def fitted_sklearn_def init_ml_system_def)

lemma agreeing_models_rows:
  "probability_row (predict_proba (ensemble agreeing_models) x)" "soft_voting agreeing_models x"
  by (simp_all add: agreeing_models_def probability_row_def soft_voting_def)

lemma advanced_prediction_trained:
  "confidence (fst (advanced_prediction ''UP'' midnight (Some rally_analysis)
      (snd (train_models fitted_sklearn [] init_ml_system)))) = 0.77
   \<and> prediction (fst (advanced_prediction ''UP'' midnight (Some rally_analysis)
      (snd (train_models fitted_sklearn [] init_ml_system)))) = ''UP''
   \<and> (\<exists>individual_models.
        model_details (fst (advanced_prediction ''UP'' midnight (Some rally_analysis)
          (snd (train_models fitted_sklearn [] init_ml_system)))) =
        Ensemble_details ''Voting Classifier'' individual_models 1 20)"
  unfolding trained_ml_state
  by (simp add: advanced_prediction_def init_ml_system_def agreeing_models_def
      array_max_def trained_feature_names_def Let_def)

lemma simulation_dict_trained:
  "\<exists>sim eng1. simulation_dict open_env trained_engine rally_analysis = (Some sim, eng1)
     \<and> sim_confidence sim = 0.47 \<and> trend sim = ''UP''
     \<and> map_option confidence (ml_prediction sim) = Some 0.77
     \<and> \<not> bson_encodable sim
     \<and> enhanced_simulations eng1 = []"
proof -
  obtain p ml' where a: "advanced_prediction ''UP'' midnight (Some rally_analysis)
      (snd (train_models fitted_sklearn [] init_ml_system)) = (p, ml')"
    by (cases "advanced_prediction ''UP'' midnight (Some rally_analysis)
      (snd (train_models fitted_sklearn [] init_ml_system))")
  with advanced_prediction_trained obtain individual_models where
    p: "confidence p = 0.77" "prediction p = ''UP''"
      "model_details p = Ensemble_details ''Voting Classifier'' individual_models 1 20"
    by auto
  show ?thesis
    unfolding simulation_dict_def
    by (simp add: open_env_def trained_engine_def learned_engine_def a p correction_rally
        bson_encodable_def)
qed

text \<open>
  Claim C4, as the specification states it: after the consensus bonus and the
  correction the confidence lies between 0.5 and 0.95, and no correction can drive it
  below 0.5. It fails on the tick of the rally, for an untrained ML system and the
  learner after six \<^verbatim>\<open>rsi_overbought\<close> failures: the fallback prediction is \<^verbatim>\<open>UP\<close> with
  confidence 0.5, the correction factor is \<open>-0.3\<close>, and line 527 computes the confidence
  0.2, which line 540 puts into the dictionary. The dictionary holds the two
  \<^verbatim>\<open>numpy.bool_\<close> values of \<^verbatim>\<open>calculate_emas\<close>, so \<^verbatim>\<open>insert_one\<close> raises and the function
  returns \<^verbatim>\<open>None\<close>.
\<close>

theorem corrected_confidence_counterexample:
  "comprehensive_analysis (env_indicators open_env) (env_market_df open_env) = Some rally_analysis
   \<and> map_option confidence
       (ml_prediction (the (fst (simulation_dict open_env learned_engine rally_analysis)))) = Some 0.5
   \<and> get_correction_factor six_failures rally_analysis
       (trend (the (fst (simulation_dict open_env learned_engine rally_analysis)))) = - 0.3
   \<and> map_option sim_confidence (fst (simulation_dict open_env learned_engine rally_analysis)) = Some 0.2
   \<and> \<not> 0.5 \<le> sim_confidence (the (fst (simulation_dict open_env learned_engine rally_analysis)))
   \<and> \<not> bson_encodable (the (fst (simulation_dict open_env learned_engine rally_analysis)))
   \<and> generate_real_simulation open_env learned_engine = (None, learned_engine)"
proof -
  have b: "confidence (basic_prediction ''UP'' (Some rally_analysis)) = 0.5"
    "model_details (basic_prediction ''UP'' (Some rally_analysis)) =
       Method_details ''Technical Analysis Fallback''"
    by (simp_all add: basic_prediction_def rally_analysis_def generate_signals_def
        scored_overbought_rally)
  have n: "\<not> bson_encodable (the (fst (simulation_dict open_env learned_engine rally_analysis)))"
    unfolding simulation_dict_learned
    by (simp add: bson_encodable_def rally_analysis_def overbought_rally_def)
  then have "generate_real_simulation open_env learned_engine = (None, learned_engine)"
    by (simp add: generate_real_simulation_def comprehensive_analysis_rally simulation_dict_learned)
  with n show ?thesis
    by (simp add: comprehensive_analysis_rally simulation_dict_learned b correction_rally)
qed

text \<open>
  Claim C4, amended: when \<^verbatim>\<open>generate_real_simulation\<close> builds a simulation while the
  correction learner is active, and every row of the ensemble's \<^verbatim>\<open>predict_proba\<close> is a
  row of probabilities, the confidence that line 527 computes is the confidence of the
  prediction (between 0.5 and 1) plus the correction factor (between \<open>-0.3\<close> and 0): the
  floor \<^verbatim>\<open>max(0.1, ...)\<close> never binds, and the confidence lies between 0.2 and 1. It is
  at most 0.95 when the prediction is a fallback or the two models' consensus is
  strong, and always when the ensemble votes softly. The simulation is stored, with
  that confidence, exactly when BSON can encode it; otherwise nothing is stored and the
  function returns \<^verbatim>\<open>None\<close>. Only \<^verbatim>\<open>MLTradingSystem.calculate_adjusted_confidence\<close>,
  which applies no correction factor, clamps its result to the interval from 0.5 to
  0.95.
\<close>

theorem corrected_confidence_range:
  assumes "comprehensive_analysis (env_indicators env) (env_market_df env) = Some ta"
    and "simulation_dict env eng ta = (Some sim, eng1)"
    and "error_learning_system eng = Some (learner_run calls)"
    and "\<forall>ml m x. enhanced_ml_system eng = Some ml \<and> models ml = Some m \<longrightarrow>
           probability_row (predict_proba (ensemble m) x)"
  shows "sim_confidence sim =
       max 0.1 (base_confidence_of env eng ta + get_correction_factor (learner_run calls) ta (trend sim))
   \<and> sim_confidence sim =
       base_confidence_of env eng ta + get_correction_factor (learner_run calls) ta (trend sim)
   \<and> 0.5 \<le> base_confidence_of env eng ta
   \<and> base_confidence_of env eng ta \<le> 1
   \<and> - 0.3 \<le> get_correction_factor (learner_run calls) ta (trend sim)
   \<and> get_correction_factor (learner_run calls) ta (trend sim) \<le> 0
   \<and> 0.2 \<le> sim_confidence sim
   \<and> sim_confidence sim \<le> 1
   \<and> ((case ml_prediction sim of
          None \<Rightarrow> True
        | Some p \<Rightarrow>
            (case model_details p of
               Ensemble_details ensemble_method individual_models consensus_score feature_count \<Rightarrow>
                 \<bar>consensus_score - 0.5\<bar> > 0.2
             | Method_details method \<Rightarrow> True)) \<longrightarrow>
       sim_confidence sim \<le> 0.95)
   \<and> ((\<forall>ml m x. enhanced_ml_system eng = Some ml \<and> models ml = Some m \<longrightarrow> soft_voting m x) \<longrightarrow>
       sim_confidence sim \<le> 0.95)
   \<and> generate_real_simulation env eng =
       (if bson_encodable sim
        then (Some sim, eng1\<lparr>enhanced_simulations := enhanced_simulations eng1 @ [sim]\<rparr>)
        else (None, eng1))
   \<and> 0.5 \<le> calculate_adjusted_confidence up_probability down_probability a
   \<and> calculate_adjusted_confidence up_probability down_probability a \<le> 0.95"
proof -
  let ?base = "base_confidence_of env eng ta"
  let ?corr = "get_correction_factor (learner_run calls) ta (trend sim)"
  from simulation_dict_fields(1) [OF assms(2)] assms(3)
  have c: "sim_confidence sim = max 0.1 (?base + ?corr)" by simp
  have "\<forall>k. 0 \<le> dict_get (correction_weights (learner_run calls) k) 0"
    using learner_run_bounded by blast
  from get_correction_factor_range [OF this, of ta "trend sim"]
  have corr: "- 0.3 \<le> ?corr" "?corr \<le> 0" by simp_all
  from base_confidence_range [OF assms(1,4)]
  have base: "0.5 \<le> ?base" "?base \<le> 1" by simp_all
  from base corr have c': "sim_confidence sim = ?base + ?corr" unfolding c by simp
  from base corr have range: "0.2 \<le> sim_confidence sim" "sim_confidence sim \<le> 1"
    unfolding c' by simp_all
  have capped: "sim_confidence sim \<le> 0.95"
    if "case ml_prediction sim of
          None \<Rightarrow> True
        | Some p \<Rightarrow>
            (case model_details p of
               Ensemble_details ensemble_method individual_models consensus_score feature_count \<Rightarrow>
                 \<bar>consensus_score - 0.5\<bar> > 0.2
             | Method_details method \<Rightarrow> True)"
    using base_confidence_capped [OF assms(1,2,4) that] corr unfolding c' by simp
  have soft: "sim_confidence sim \<le> 0.95"
    if "\<forall>ml m x. enhanced_ml_system eng = Some ml \<and> models ml = Some m \<longrightarrow> soft_voting m x"
    using base_confidence_soft_voting [OF assms(1) that] corr unfolding c' by simp
  note insert = generate_real_simulation_insert [OF assms(1,2)]
  note adjusted = calculate_adjusted_confidence_range [of up_probability down_probability a]
  show ?thesis
    using c c' base corr range capped soft insert adjusted by blast
qed

text \<open>
  Witness for C4: the tick of the rally on the trained server. The three models agree
  on class 1 and the ensemble's row is the mean of the two models' rows; the
  prediction's confidence is \<open>min (0.7 * 1.1) 0.95 = 0.77\<close>, the correction factor is
  \<open>-0.3\<close>, the computed confidence 0.47. The prediction holds the \<^verbatim>\<open>numpy.int64\<close> of
  the two models, so nothing is stored.
\<close>

theorem corrected_confidence_range_witness:
  "comprehensive_analysis (env_indicators open_env) (env_market_df open_env) = Some rally_analysis
   \<and> error_learning_system trained_engine =
       Some (learner_run (replicate 6 (Analyze_failed overbought_failure)))
   \<and> map_option models (enhanced_ml_system trained_engine) = Some (Some agreeing_models)
   \<and> (\<forall>x. probability_row (predict_proba (ensemble agreeing_models) x))
   \<and> (\<forall>x. soft_voting agreeing_models x)
   \<and> map_option sim_confidence (fst (simulation_dict open_env trained_engine rally_analysis)) = Some 0.47
   \<and> map_option confidence
       (ml_prediction (the (fst (simulation_dict open_env trained_engine rally_analysis)))) = Some 0.77
   \<and> 0.2 \<le> sim_confidence (the (fst (simulation_dict open_env trained_engine rally_analysis)))
   \<and> sim_confidence (the (fst (simulation_dict open_env trained_engine rally_analysis))) \<le> 0.95
   \<and> \<not> bson_encodable (the (fst (simulation_dict open_env trained_engine rally_analysis)))
   \<and> fst (generate_real_simulation open_env trained_engine) = None
   \<and> enhanced_simulations (snd (generate_real_simulation open_env trained_engine)) = []"
proof -
  from simulation_dict_trained obtain sim eng1 where
    d: "simulation_dict open_env trained_engine rally_analysis = (Some sim, eng1)"
    and v: "sim_confidence sim = 0.47" "map_option confidence (ml_prediction sim) = Some 0.77"
      "\<not> bson_encodable sim" "enhanced_simulations eng1 = []"
    by blast
  have e: "error_learning_system trained_engine =
      Some (learner_run (replicate 6 (Analyze_failed overbought_failure)))"
    by (simp add: trained_engine_def learned_engine_def six_failures_def)
  have t: "map_option models (enhanced_ml_system trained_engine) = Some (Some agreeing_models)"
    by (simp add: trained_engine_def trained_ml_state)
  then have rows: "\<forall>ml m x. enhanced_ml_system trained_engine = Some ml \<and> models ml = Some m \<longrightarrow>
      probability_row (predict_proba (ensemble m) x)"
    and sv: "\<forall>ml m x. enhanced_ml_system trained_engine = Some ml \<and> models ml = Some m \<longrightarrow>
      soft_voting m x"
    using agreeing_models_rows by auto
  from corrected_confidence_range [OF comprehensive_analysis_rally d e rows] sv v
  have "0.2 \<le> sim_confidence sim" "sim_confidence sim \<le> 0.95"
    "generate_real_simulation open_env trained_engine = (None, eng1)"
    by simp_all
  with comprehensive_analysis_rally e t agreeing_models_rows d v show ?thesis by simp
qed

end
